theory Spec2Isabelle
  imports Main "HOL-Library.Word"
begin

section \<open>Gatekeeper: the credential lifecycle core\<close>

text \<open>
  A shallow embedding of the agent orchestrator (\<^verbatim>\<open>GatekeeperAgent\<close>), of the PostgreSQL
  provider (\<^verbatim>\<open>PostgresProvider\<close>) and of the bootstrap helper routines
  (\<^verbatim>\<open>gk_create_ephemeral_user\<close>, \<^verbatim>\<open>gk_drop_user\<close>, \<^verbatim>\<open>gk_cleanup_expired_users\<close>).

  Conventions.
  \<^item> A JavaScript \<^verbatim>\<open>throw\<close> or a rejected promise is the \<open>Inl\<close> of a sum; a PL/pgSQL
    \<^verbatim>\<open>RAISE EXCEPTION\<close> is the \<open>Inl\<close> of its message.
  \<^item> Every effect is state passing over one record \<open>world\<close>: the target database, the
    clock, the random source, the admin pool and a chronological trace of what was done.
  \<^item> Instants are milliseconds since the epoch (what \<^verbatim>\<open>Date.now()\<close> returns); an
    ISO-8601 string produced by \<^verbatim>\<open>toISOString()\<close> is identified with the instant it
    denotes. The clock does not advance while one operation runs.
  \<^item> Strings are byte strings; JavaScript integers in the ranges met here are \<open>int\<close>.
  \<^item> Logger calls other than the audit entry are not modelled; they do not throw.
\<close>

subsection \<open>Characters, hexadecimal and base64\<close>

definition is_digit :: "char \<Rightarrow> bool" where
  "is_digit c = (let n = (of_char c :: nat) in 48 \<le> n \<and> n \<le> 57)"

definition is_lower :: "char \<Rightarrow> bool" where
  "is_lower c = (let n = (of_char c :: nat) in 97 \<le> n \<and> n \<le> 122)"

definition is_upper :: "char \<Rightarrow> bool" where
  "is_upper c = (let n = (of_char c :: nat) in 65 \<le> n \<and> n \<le> 90)"

text \<open>The character class \<^verbatim>\<open>[a-zA-Z0-9]\<close>.\<close>

definition is_alnum :: "char \<Rightarrow> bool" where
  "is_alnum c = (is_lower c \<or> is_upper c \<or> is_digit c)"

text \<open>The character class \<^verbatim>\<open>[a-zA-Z0-9_]\<close>.\<close>

definition is_alnum_us :: "char \<Rightarrow> bool" where
  "is_alnum_us c = (is_alnum c \<or> c = CHR ''_'')"

text \<open>
  \<^verbatim>\<open>^gk_[a-zA-Z0-9_]+$\<close>, the pattern of \<^verbatim>\<open>gk_create_ephemeral_user\<close> and
  \<^verbatim>\<open>gk_drop_user\<close>; and \<^verbatim>\<open>^gk_[a-zA-Z0-9]+$\<close>, the pattern of
  \<^verbatim>\<open>gk_list_ephemeral_users\<close>, \<^verbatim>\<open>gk_cleanup_expired_users\<close> and
  \<^verbatim>\<open>validateEphemeralUsername\<close>.
\<close>

definition gk_pattern_us :: "string \<Rightarrow> bool" where
  "gk_pattern_us s = (take 3 s = ''gk_'' \<and> drop 3 s \<noteq> [] \<and> list_all is_alnum_us (drop 3 s))"

definition gk_pattern :: "string \<Rightarrow> bool" where
  "gk_pattern s = (take 3 s = ''gk_'' \<and> drop 3 s \<noteq> [] \<and> list_all is_alnum (drop 3 s))"

definition hex_digits :: string where
  "hex_digits = ''0123456789abcdef''"

definition is_hex :: "char \<Rightarrow> bool" where
  "is_hex c = (c \<in> set hex_digits)"

text \<open>\<^verbatim>\<open>Buffer.toString('hex')\<close>: two lower-case digits per byte.\<close>

definition hex_byte :: "8 word \<Rightarrow> string" where
  "hex_byte b = [hex_digits ! (unat b div 16), hex_digits ! (unat b mod 16)]"

definition to_hex :: "8 word list \<Rightarrow> string" where
  "to_hex bs = concat (map hex_byte bs)"

definition base64_alphabet :: string where
  "base64_alphabet = ''ABCDEFGHIJKLMNOPQRSTUVWXYZabcdefghijklmnopqrstuvwxyz0123456789+/''"

text \<open>\<^verbatim>\<open>Buffer.toString('base64')\<close>: four characters per three bytes, padded with \<^verbatim>\<open>=\<close>.\<close>

fun to_base64 :: "8 word list \<Rightarrow> string" where
  "to_base64 [] = []"
| "to_base64 [a] =
     [base64_alphabet ! (unat a div 4),
      base64_alphabet ! ((unat a mod 4) * 16),
      CHR ''='', CHR ''='']"
| "to_base64 [a, b] =
     [base64_alphabet ! (unat a div 4),
      base64_alphabet ! ((unat a mod 4) * 16 + unat b div 16),
      base64_alphabet ! ((unat b mod 16) * 4),
      CHR ''='']"
| "to_base64 (a # b # c # rest) =
     [base64_alphabet ! (unat a div 4),
      base64_alphabet ! ((unat a mod 4) * 16 + unat b div 16),
      base64_alphabet ! ((unat b mod 16) * 4 + unat c div 64),
      base64_alphabet ! (unat c mod 64)] @ to_base64 rest"

text \<open>Decimal rendering of an integer, as a template literal renders a JavaScript integer.\<close>

fun string_of_nat :: "nat \<Rightarrow> string" where
  "string_of_nat n =
     (if n < 10 then [hex_digits ! n] else string_of_nat (n div 10) @ [hex_digits ! (n mod 10)])"

definition string_of_int :: "int \<Rightarrow> string" where
  "string_of_int i = (if i < 0 then CHR ''-'' # string_of_nat (nat (- i)) else string_of_nat (nat i))"

text \<open>\<^verbatim>\<open>String.prototype.includes\<close>.\<close>

fun str_includes :: "string \<Rightarrow> string \<Rightarrow> bool" where
  "str_includes [] needle = (needle = [])"
| "str_includes (c # cs) needle =
     (take (length needle) (c # cs) = needle \<or> str_includes cs needle)"

text \<open>
  \<^verbatim>\<open>encodeURIComponent\<close>: the unreserved characters stay, every other byte becomes
  \<^verbatim>\<open>%XX\<close> with upper-case digits.
\<close>

definition uri_unreserved :: "char \<Rightarrow> bool" where
  "uri_unreserved c = (is_alnum c \<or> c \<in> set ''-_.!~*'' \<or> c = CHR 0x27 \<or> c \<in> set ''()'')"

definition upper_hex_digits :: string where
  "upper_hex_digits = ''0123456789ABCDEF''"

definition encodeURIComponent :: "string \<Rightarrow> string" where
  "encodeURIComponent s =
     concat (map (\<lambda>c. if uri_unreserved c then [c]
                       else [CHR ''%'', upper_hex_digits ! ((of_char c :: nat) div 16),
                             upper_hex_digits ! ((of_char c :: nat) mod 16)]) s)"

subsection \<open>Values, thrown errors and the platform\<close>

text \<open>
  A JavaScript number is either integer-valued or not (a fraction, \<^verbatim>\<open>NaN\<close>, an infinity);
  the schemas only ask \<^verbatim>\<open>Number.isInteger\<close> and compare.
\<close>

datatype js_number = Integer int | NonInteger

datatype json =
    JNull
  | JBool bool
  | JNum js_number
  | JStr string
  | JArr "json list"
  | JObj "(string \<times> json) list"

text \<open>
  An object is its list of properties; reading a property is \<open>map_of\<close>, and a missing key
  (\<^verbatim>\<open>undefined\<close>) is \<open>None\<close>.
\<close>

text \<open>
  What can be thrown. \<open>Error m\<close> is a plain \<^verbatim>\<open>Error\<close> (a driver or database error) with
  message \<open>m\<close>; \<open>NonError\<close> is a thrown value that is not \<^verbatim>\<open>instanceof Error\<close>;
  \<open>ValidationError message field\<close> and \<open>DatabaseError message retryable\<close> are the classes
  of \<^verbatim>\<open>errors.ts\<close>; \<open>DatabaseProviderError message code retryable\<close> is the provider
  error class with its subclasses.
\<close>

datatype js_error =
    Error string
  | NonError
  | ValidationError string "string option"
  | DatabaseError string bool
  | DatabaseProviderError string string bool

text \<open>\<^verbatim>\<open>error instanceof Error ? error.message : undefined\<close>.\<close>

fun error_message :: "js_error \<Rightarrow> string option" where
  "error_message (Error m) = Some m"
| "error_message NonError = None"
| "error_message (ValidationError m f) = Some m"
| "error_message (DatabaseError m r) = Some m"
| "error_message (DatabaseProviderError m c r) = Some m"

fun is_ValidationError :: "js_error \<Rightarrow> bool" where
  "is_ValidationError (ValidationError m f) = True"
| "is_ValidationError _ = False"

text \<open>
  Library behaviour the repository relies on but does not define: zod's \<^verbatim>\<open>uuid\<close> and
  \<^verbatim>\<open>email\<close> string checks, the text zod gives an issue for which the schema supplies no
  message (a function of the issue's path and of the value received), SHA-256 with hex
  output, and \<^verbatim>\<open>JSON.stringify\<close>. They are parameters of the model.
\<close>

record platform =
  is_uuid :: "string \<Rightarrow> bool"
  is_email :: "string \<Rightarrow> bool"
  default_message :: "string list \<Rightarrow> json option \<Rightarrow> string"
  sha256_hex :: "string \<Rightarrow> string"
  JSON_stringify :: "json \<Rightarrow> string"

subsection \<open>Job schemas (\<^verbatim>\<open>jobs.ts\<close>, \<^verbatim>\<open>types.ts\<close>) and their decoding\<close>

record database_target =
  host :: string
  port :: int
  database :: string
  sslMode :: string

record requester =
  userId :: string
  email :: "string option"

record create_session_job =
  job_id :: string
  correlationId :: string
  target :: database_target
  role :: string
  ttlMinutes :: int
  requester :: requester
  reason :: "string option"

record revoke_session_job =
  revoke_id :: string
  revoke_correlationId :: string
  revoke_sessionId :: string

record cleanup_job =
  cleanup_id :: string
  cleanup_correlationId :: string
  olderThanMinutes :: int

datatype agent_job =
    CreateSession create_session_job
  | RevokeSession revoke_session_job
  | Cleanup cleanup_job

text \<open>
  A zod parse either yields the decoded value or issues; \<^verbatim>\<open>validate\<close> only reads the first
  issue, which is the first failing check of the first failing key in the order of the
  schema's shape. The model returns that first issue: its path and its message.
\<close>

type_synonym issue = "string list \<times> string"

definition then_parse :: "issue + 'a \<Rightarrow> ('a \<Rightarrow> issue + 'b) \<Rightarrow> issue + 'b" where
  "then_parse r f = (case r of Inl i \<Rightarrow> Inl i | Inr v \<Rightarrow> f v)"

text \<open>\<^verbatim>\<open>z.string()\<close>, \<^verbatim>\<open>z.string().min(1, msg)\<close>, \<^verbatim>\<open>z.string().uuid(msg)\<close>.\<close>

definition z_string :: "platform \<Rightarrow> string list \<Rightarrow> json option \<Rightarrow> issue + string" where
  "z_string L path v =
     (case v of Some (JStr s) \<Rightarrow> Inr s | _ \<Rightarrow> Inl (path, default_message L path v))"

definition z_string_min1 :: "platform \<Rightarrow> string list \<Rightarrow> string \<Rightarrow> json option \<Rightarrow> issue + string" where
  "z_string_min1 L path msg v =
     then_parse (z_string L path v) (\<lambda>s. if length s < 1 then Inl (path, msg) else Inr s)"

definition z_string_uuid :: "platform \<Rightarrow> string list \<Rightarrow> string \<Rightarrow> json option \<Rightarrow> issue + string" where
  "z_string_uuid L path msg v =
     then_parse (z_string L path v) (\<lambda>s. if is_uuid L s then Inr s else Inl (path, msg))"

text \<open>
  \<^verbatim>\<open>z.number().int().min(lo, lo_msg).max(hi, hi_msg)\<close>; a bound or a message that the
  schema does not give is \<open>None\<close>. The checks run in the order written.
\<close>

definition z_int :: "platform \<Rightarrow> string list \<Rightarrow> int \<Rightarrow> string option \<Rightarrow> (int \<times> string option) option
    \<Rightarrow> json option \<Rightarrow> issue + int" where
  "z_int L path lo lo_msg hi v =
     (case v of
        Some (JNum (Integer i)) \<Rightarrow>
          if i < lo then
            Inl (path, case lo_msg of Some m \<Rightarrow> m | None \<Rightarrow> default_message L path v)
          else (case hi of
                  None \<Rightarrow> Inr i
                | Some (h, hi_msg) \<Rightarrow>
                    if h < i then
                      Inl (path, case hi_msg of Some m \<Rightarrow> m | None \<Rightarrow> default_message L path v)
                    else Inr i)
      | _ \<Rightarrow> Inl (path, default_message L path v))"

text \<open>\<^verbatim>\<open>z.enum([...])\<close>.\<close>

definition z_enum :: "platform \<Rightarrow> string list \<Rightarrow> string list \<Rightarrow> json option \<Rightarrow> issue + string" where
  "z_enum L path allowed v =
     (case v of
        Some (JStr s) \<Rightarrow> if s \<in> set allowed then Inr s else Inl (path, default_message L path v)
      | _ \<Rightarrow> Inl (path, default_message L path v))"

text \<open>\<^verbatim>\<open>DatabaseTargetSchema\<close>.\<close>

definition DatabaseTargetSchema :: "platform \<Rightarrow> string list \<Rightarrow> json option \<Rightarrow> issue + database_target" where
  "DatabaseTargetSchema L path v =
     (case v of
        Some (JObj kvs) \<Rightarrow>
          then_parse (z_string_min1 L (path @ [''host'']) ''Host is required'' (map_of kvs ''host''))
          (\<lambda>h. then_parse (z_int L (path @ [''port'']) 1 None
                               (Some (65535, Some ''Port must be between 1 and 65535''))
                               (map_of kvs ''port''))
          (\<lambda>p. then_parse (z_string_min1 L (path @ [''database'']) ''Database name is required''
                               (map_of kvs ''database''))
          (\<lambda>d. then_parse (case map_of kvs ''sslMode'' of
                                None \<Rightarrow> Inr ''prefer''
                              | Some x \<Rightarrow> z_enum L (path @ [''sslMode''])
                                            [''disable'', ''require'', ''prefer''] (Some x))
          (\<lambda>m. Inr \<lparr>host = h, port = p, database = d, sslMode = m\<rparr>))))
      | _ \<Rightarrow> Inl (path, default_message L path v))"

text \<open>\<^verbatim>\<open>RequesterSchema\<close>.\<close>

definition RequesterSchema :: "platform \<Rightarrow> string list \<Rightarrow> json option \<Rightarrow> issue + requester" where
  "RequesterSchema L path v =
     (case v of
        Some (JObj kvs) \<Rightarrow>
          then_parse (z_string_min1 L (path @ [''userId'']) ''User ID is required'' (map_of kvs ''userId''))
          (\<lambda>u. then_parse (case map_of kvs ''email'' of
                                None \<Rightarrow> Inr None
                              | Some x \<Rightarrow>
                                  then_parse (z_string L (path @ [''email'']) (Some x))
                                  (\<lambda>e. if is_email L e then Inr (Some e)
                                       else Inl (path @ [''email''],
                                                 default_message L (path @ [''email'']) (Some x))))
          (\<lambda>e. Inr \<lparr>userId = u, email = e\<rparr>))
      | _ \<Rightarrow> Inl (path, default_message L path v))"

text \<open>\<^verbatim>\<open>RoleSchema\<close>.\<close>

definition RoleSchema :: "platform \<Rightarrow> string list \<Rightarrow> json option \<Rightarrow> issue + string" where
  "RoleSchema L path v = z_enum L path [''app_read'', ''app_write'', ''app_admin''] v"

text \<open>
  \<^verbatim>\<open>CreateSessionJobSchema\<close>, \<^verbatim>\<open>RevokeSessionJobSchema\<close> and \<^verbatim>\<open>CleanupJobSchema\<close>, applied
  to the properties of an object whose \<^verbatim>\<open>type\<close> has already matched the literal. The keys
  of \<^verbatim>\<open>BaseJobSchema\<close> come first.
\<close>

definition CreateSessionJobSchema :: "platform \<Rightarrow> (string \<times> json) list \<Rightarrow> issue + create_session_job" where
  "CreateSessionJobSchema L kvs =
     then_parse (z_string_min1 L [''id''] ''Job ID is required'' (map_of kvs ''id''))
     (\<lambda>i. then_parse (z_string_uuid L [''correlationId''] ''Correlation ID must be a valid UUID''
                          (map_of kvs ''correlationId''))
     (\<lambda>c. then_parse (DatabaseTargetSchema L [''target''] (map_of kvs ''target''))
     (\<lambda>t. then_parse (RoleSchema L [''role''] (map_of kvs ''role''))
     (\<lambda>r. then_parse (z_int L [''ttlMinutes''] 1 (Some ''TTL must be at least 1 minute'')
                          (Some (1440, Some ''TTL cannot exceed 24 hours (1440 minutes)''))
                          (map_of kvs ''ttlMinutes''))
     (\<lambda>ttl. then_parse (RequesterSchema L [''requester''] (map_of kvs ''requester''))
     (\<lambda>q. then_parse (case map_of kvs ''reason'' of
                           None \<Rightarrow> Inr None
                         | Some x \<Rightarrow>
                             then_parse (z_string L [''reason''] (Some x))
                             (\<lambda>s. if 256 < length s
                                  then Inl ([''reason''], ''Reason cannot exceed 256 characters'')
                                  else Inr (Some s)))
     (\<lambda>rs. Inr \<lparr>job_id = i, correlationId = c, target = t, role = r, ttlMinutes = ttl,
                   requester = q, reason = rs\<rparr>)))))))"

definition RevokeSessionJobSchema :: "platform \<Rightarrow> (string \<times> json) list \<Rightarrow> issue + revoke_session_job" where
  "RevokeSessionJobSchema L kvs =
     then_parse (z_string_min1 L [''id''] ''Job ID is required'' (map_of kvs ''id''))
     (\<lambda>i. then_parse (z_string_uuid L [''correlationId''] ''Correlation ID must be a valid UUID''
                          (map_of kvs ''correlationId''))
     (\<lambda>c. then_parse (z_string_min1 L [''sessionId''] ''Session ID is required''
                          (map_of kvs ''sessionId''))
     (\<lambda>s. Inr \<lparr>revoke_id = i, revoke_correlationId = c, revoke_sessionId = s\<rparr>)))"

definition CleanupJobSchema :: "platform \<Rightarrow> (string \<times> json) list \<Rightarrow> issue + cleanup_job" where
  "CleanupJobSchema L kvs =
     then_parse (z_string_min1 L [''id''] ''Job ID is required'' (map_of kvs ''id''))
     (\<lambda>i. then_parse (z_string_uuid L [''correlationId''] ''Correlation ID must be a valid UUID''
                          (map_of kvs ''correlationId''))
     (\<lambda>c. then_parse (case map_of kvs ''olderThanMinutes'' of
                           None \<Rightarrow> Inr 5
                         | Some x \<Rightarrow> z_int L [''olderThanMinutes''] 0
                                       (Some ''Cleanup threshold must be non-negative'') None (Some x))
     (\<lambda>m. Inr \<lparr>cleanup_id = i, cleanup_correlationId = c, olderThanMinutes = m\<rparr>)))"

text \<open>\<^verbatim>\<open>AgentJobSchema\<close>: the union discriminated by \<^verbatim>\<open>type\<close>.\<close>

definition AgentJobSchema :: "platform \<Rightarrow> json \<Rightarrow> issue + agent_job" where
  "AgentJobSchema L data =
     (case data of
        JObj kvs \<Rightarrow>
          if map_of kvs ''type'' = Some (JStr ''create_session'')
          then then_parse (CreateSessionJobSchema L kvs) (\<lambda>j. Inr (CreateSession j))
          else if map_of kvs ''type'' = Some (JStr ''revoke_session'')
          then then_parse (RevokeSessionJobSchema L kvs) (\<lambda>j. Inr (RevokeSession j))
          else if map_of kvs ''type'' = Some (JStr ''cleanup'')
          then then_parse (CleanupJobSchema L kvs) (\<lambda>j. Inr (Cleanup j))
          else Inl ([''type''], default_message L [''type''] (map_of kvs ''type''))
      | _ \<Rightarrow> Inl ([], default_message L [] (Some data)))"

text \<open>\<^verbatim>\<open>Array.prototype.join('.')\<close>.\<close>

fun join_dot :: "string list \<Rightarrow> string" where
  "join_dot [] = []"
| "join_dot [p] = p"
| "join_dot (p # q # ps) = p @ ''.'' @ join_dot (q # ps)"

text \<open>
  \<^verbatim>\<open>validate(schema, data, context)\<close> of \<^verbatim>\<open>validation.ts\<close>: a zod failure becomes a
  \<^verbatim>\<open>ValidationError\<close> whose message is the context, a colon and the first issue's message.
\<close>

definition validate :: "(json \<Rightarrow> issue + 'a) \<Rightarrow> json \<Rightarrow> string \<Rightarrow> js_error + 'a" where
  "validate schema data context' =
     (case schema data of
        Inr v \<Rightarrow> Inr v
      | Inl (path, msg) \<Rightarrow> Inl (ValidationError (context' @ '': '' @ msg) (Some (join_dot path))))"

definition validateAgentJob :: "platform \<Rightarrow> json \<Rightarrow> js_error + agent_job" where
  "validateAgentJob L data = validate (AgentJobSchema L) data ''Invalid agent job''"

subsection \<open>The target database\<close>

text \<open>
  The database state the helper routines read and write: the role catalogue
  \<^verbatim>\<open>pg_roles\<close> (in scan order), the sessions of \<^verbatim>\<open>pg_stat_activity\<close>, the privileges and
  ownerships a role holds directly, the procedures of \<^verbatim>\<open>pg_proc\<close>, the tables
  \<^verbatim>\<open>sample_data\<close> (its row count) and \<^verbatim>\<open>gatekeeper_audit\<close>, and the calling backend's pid.
\<close>

record pg_role =
  rolcanlogin :: bool
  rolpassword :: "string option"
  rolvaliduntil :: "int option"
  rolconnlimit :: int
  rolmemberof :: "string list"
  rolconfig :: "string list"

record backend =
  pid :: nat
  usename :: string
  state :: string

datatype acl_object =
    TablesInPublic
  | SequencesInPublic
  | FunctionsInPublic
  | SchemaPublic
  | DatabaseApp
  | OtherObject string

record audit_row =
  event_type :: string
  session_id :: "string option"
  audit_username :: "string option"
  correlation_id :: "string option"
  event_data :: json
  prev_hash :: "string option"
  event_hash :: "string option"

record db_state =
  pg_roles :: "(string \<times> pg_role) list"
  pg_stat_activity :: "backend list"
  acl :: "(string \<times> acl_object) list"
  pg_proc :: "string list"
  sample_data :: nat
  gatekeeper_audit :: "audit_row list"
  pg_backend_pid :: nat
  server_version :: string

text \<open>
  The engine's own statements, by their documented effect as far as the helpers observe
  it. \<^verbatim>\<open>CREATE ROLE\<close> fails when the name is taken; \<^verbatim>\<open>DROP ROLE\<close> fails while objects
  still depend on the role.
\<close>

definition role_exists :: "db_state \<Rightarrow> string \<Rightarrow> bool" where
  "role_exists d n = (map_of (pg_roles d) n \<noteq> None)"

definition quoted :: "string \<Rightarrow> string" where
  "quoted n = [CHR 0x22] @ n @ [CHR 0x22]"

definition CREATE_ROLE :: "string \<Rightarrow> string \<Rightarrow> int \<Rightarrow> int \<Rightarrow> db_state \<Rightarrow> string + db_state" where
  "CREATE_ROLE name password valid_until connection_limit d =
     (if role_exists d name then Inl (''role '' @ quoted name @ '' already exists'')
      else Inr (d\<lparr>pg_roles := pg_roles d @
                  [(name, \<lparr>rolcanlogin = True, rolpassword = Some password,
                            rolvaliduntil = Some valid_until, rolconnlimit = connection_limit,
                            rolmemberof = [], rolconfig = []\<rparr>)]\<rparr>))"

definition update_role :: "string \<Rightarrow> (pg_role \<Rightarrow> pg_role) \<Rightarrow> db_state \<Rightarrow> db_state" where
  "update_role name f d =
     d\<lparr>pg_roles := map (\<lambda>(n, r). if n = name then (n, f r) else (n, r)) (pg_roles d)\<rparr>"

definition GRANT_ROLE :: "string \<Rightarrow> string \<Rightarrow> db_state \<Rightarrow> db_state" where
  "GRANT_ROLE role_name name d = update_role name (\<lambda>r. r\<lparr>rolmemberof := rolmemberof r @ [role_name]\<rparr>) d"

definition ALTER_ROLE_SET :: "string \<Rightarrow> string \<Rightarrow> db_state \<Rightarrow> db_state" where
  "ALTER_ROLE_SET name setting d = update_role name (\<lambda>r. r\<lparr>rolconfig := rolconfig r @ [setting]\<rparr>) d"

definition REVOKE_ALL :: "acl_object \<Rightarrow> string \<Rightarrow> db_state \<Rightarrow> db_state" where
  "REVOKE_ALL obj name d = d\<lparr>acl := filter (\<lambda>(g, ob). \<not> (g = name \<and> ob = obj)) (acl d)\<rparr>"

definition DROP_ROLE :: "string \<Rightarrow> db_state \<Rightarrow> string + db_state" where
  "DROP_ROLE name d =
     (if list_ex (\<lambda>(g, ob). g = name) (acl d)
      then Inl (''role '' @ quoted name @ '' cannot be dropped because some objects depend on it'')
      else Inr (d\<lparr>pg_roles := filter (\<lambda>(n, r). n \<noteq> name) (pg_roles d)\<rparr>))"

text \<open>
  \<^verbatim>\<open>PERFORM pg_terminate_backend(pid) FROM pg_stat_activity WHERE usename = username AND
  pid != pg_backend_pid()\<close>.
\<close>

definition terminate_backends :: "string \<Rightarrow> db_state \<Rightarrow> db_state" where
  "terminate_backends name d =
     d\<lparr>pg_stat_activity :=
         filter (\<lambda>b. \<not> (usename b = name \<and> pid b \<noteq> pg_backend_pid d)) (pg_stat_activity d)\<rparr>"

subsection \<open>The privileged helper routines (bootstrap SQL)\<close>

text \<open>
  \<^verbatim>\<open>gk_create_ephemeral_user(username, password, valid_until, role_name, connection_limit)\<close>.
  The instant \<open>now\<close> is the value of \<^verbatim>\<open>now()\<close>. A raised exception leaves the database as
  it was.
\<close>

definition gk_create_ephemeral_user ::
    "string option \<Rightarrow> string option \<Rightarrow> int \<Rightarrow> string \<Rightarrow> int \<Rightarrow> int \<Rightarrow> db_state \<Rightarrow> string + db_state" where
  "gk_create_ephemeral_user username password valid_until role_name connection_limit now d =
     (case username of
        None \<Rightarrow> Inl ''Username cannot be empty''
      | Some u \<Rightarrow>
          if u = [] then Inl ''Username cannot be empty''
          else (case password of
                  None \<Rightarrow> Inl ''Password cannot be empty''
                | Some p \<Rightarrow>
                    if p = [] then Inl ''Password cannot be empty''
                    else if \<not> gk_pattern_us u
                    then Inl ''Username must follow pattern: gk_[alphanumeric_underscore]''
                    else if valid_until \<le> now
                    then Inl ''Valid until timestamp must be in the future''
                    else if \<not> role_exists d role_name
                    then Inl (''Role '' @ role_name @ '' does not exist'')
                    else (case CREATE_ROLE u p valid_until connection_limit d of
                            Inl m \<Rightarrow> Inl m
                          | Inr d1 \<Rightarrow>
                              Inr (ALTER_ROLE_SET u ''search_path=public''
                                     (GRANT_ROLE role_name u d1)))))"

text \<open>
  \<^verbatim>\<open>gk_drop_user(username)\<close>. The result is the raised message or the returned boolean.
  When \<^verbatim>\<open>DROP ROLE\<close> raises, the routine's own changes are undone with the statement, but
  backends already terminated stay terminated.
\<close>

definition revoke_privileges :: "string \<Rightarrow> db_state \<Rightarrow> db_state" where
  "revoke_privileges u d =
     REVOKE_ALL DatabaseApp u
       (REVOKE_ALL SchemaPublic u
         (REVOKE_ALL FunctionsInPublic u
           (REVOKE_ALL SequencesInPublic u
             (REVOKE_ALL TablesInPublic u d))))"

definition gk_drop_user :: "string option \<Rightarrow> db_state \<Rightarrow> (string + bool) \<times> db_state" where
  "gk_drop_user username d =
     (case username of
        None \<Rightarrow> (Inl ''Username cannot be empty'', d)
      | Some u \<Rightarrow>
          if u = [] then (Inl ''Username cannot be empty'', d)
          else if \<not> gk_pattern_us u
          then (Inl ''Can only drop gatekeeper users (must start with gk_)'', d)
          else if \<not> role_exists d u then (Inr False, d)
          else
            let active_connections =
                  length (filter (\<lambda>b. usename b = u \<and> state b = ''active'' \<and> pid b \<noteq> pg_backend_pid d)
                            (pg_stat_activity d));
                d1 = (if active_connections > 0 then terminate_backends u d else d)
            in (case DROP_ROLE u (revoke_privileges u d1) of
                  Inl m \<Rightarrow> (Inl m, d1)
                | Inr d3 \<Rightarrow> (Inr True, d3)))"

text \<open>\<^verbatim>\<open>gk_list_ephemeral_users()\<close>, ordered by expiry with the roles without expiry last.\<close>

record list_row =
  list_username :: string
  valid_until :: "int option"
  is_expired :: bool
  connection_limit :: int
  active_connections :: nat

definition gk_list_ephemeral_users :: "int \<Rightarrow> db_state \<Rightarrow> list_row list" where
  "gk_list_ephemeral_users now d =
     (let rows = map (\<lambda>(n, r).
                   \<lparr>list_username = n, valid_until = rolvaliduntil r,
                    is_expired = (case rolvaliduntil r of None \<Rightarrow> False | Some t \<Rightarrow> t \<le> now),
                    connection_limit = rolconnlimit r,
                    active_connections =
                      length (filter (\<lambda>b. usename b = n \<and> state b = ''active'') (pg_stat_activity d))\<rparr>)
                 (filter (\<lambda>(n, r). gk_pattern n) (pg_roles d))
      in sort_key (\<lambda>row. the (valid_until row)) (filter (\<lambda>row. valid_until row \<noteq> None) rows)
         @ filter (\<lambda>row. valid_until row = None) rows)"

text \<open>
  \<^verbatim>\<open>gk_cleanup_expired_users(older_than_minutes)\<close>. The \<^verbatim>\<open>FOR\<close> loop runs over the roles
  selected when it starts; each drop runs in its own \<^verbatim>\<open>BEGIN ... EXCEPTION\<close> block.
\<close>

record cleanup_row =
  row_username :: string
  was_expired :: bool
  row_dropped :: bool
  error_message_col :: "string option"

fun cleanup_loop :: "string list \<Rightarrow> db_state \<Rightarrow> cleanup_row list \<times> db_state" where
  "cleanup_loop [] d = ([], d)"
| "cleanup_loop (rolname # rest) d =
     (case gk_drop_user (Some rolname) d of
        (r, d') \<Rightarrow>
          (case cleanup_loop rest d' of
             (rows, d'') \<Rightarrow>
               (\<lparr>row_username = rolname, was_expired = True,
                 row_dropped = (case r of Inr drop_success \<Rightarrow> drop_success | Inl m \<Rightarrow> False),
                 error_message_col = (case r of Inr b \<Rightarrow> None | Inl m \<Rightarrow> Some m)\<rparr> # rows, d'')))"

definition cleanup_candidates :: "int \<Rightarrow> int \<Rightarrow> db_state \<Rightarrow> string list" where
  "cleanup_candidates older_than_minutes now d =
     map fst (filter (\<lambda>(n, r). gk_pattern n \<and>
                        (case rolvaliduntil r of
                           Some t \<Rightarrow> t \<le> now - older_than_minutes * 60000
                         | None \<Rightarrow> True))
                (pg_roles d))"

definition gk_cleanup_expired_users :: "int \<Rightarrow> int \<Rightarrow> db_state \<Rightarrow> cleanup_row list \<times> db_state" where
  "gk_cleanup_expired_users older_than_minutes now d =
     cleanup_loop (cleanup_candidates older_than_minutes now d) d"

text \<open>\<^verbatim>\<open>gk_validate_setup()\<close>: rows of (check name, status, details).\<close>

definition gk_validate_setup :: "db_state \<Rightarrow> (string \<times> string \<times> string) list" where
  "gk_validate_setup d =
     (let admin_exists = role_exists d ''gatekeeper_admin'';
          app_read_exists = role_exists d ''app_read'';
          functions_exist =
            length (filter (\<lambda>p. p \<in> set [''gk_create_ephemeral_user'', ''gk_drop_user'',
                                          ''gk_list_ephemeral_users'', ''gk_cleanup_expired_users''])
                      (pg_proc d));
          sample_count = sample_data d
      in [(''gatekeeper_admin_role'', if admin_exists then ''OK'' else ''FAILED'',
           if admin_exists then ''Admin role exists'' else ''Admin role missing''),
          (''app_read_role'', if app_read_exists then ''OK'' else ''FAILED'',
           if app_read_exists then ''App read role exists'' else ''App read role missing''),
          (''helper_functions'', if functions_exist = 4 then ''OK'' else ''FAILED'',
           string_of_nat functions_exist @ ''/4 helper functions exist''),
          (''sample_data'', if sample_count > 0 then ''OK'' else ''FAILED'',
           string_of_nat sample_count @ '' sample records available'')])"

subsection \<open>The world: driver, admin pool, clock, random source and trace\<close>

record create_request =
  req_username :: string
  req_password :: string
  req_role :: string
  req_ttlMinutes :: int
  req_connectionLimit :: int

record create_result =
  cr_username :: string
  cr_dsn :: string
  cr_expiresAt :: int
  cr_connectionLimit :: int
  cr_postgresVersion :: string

text \<open>\<^verbatim>\<open>UserCleanupResult\<close>.\<close>

record cleanup_result =
  ucr_username :: string
  wasExpired :: bool
  dropped :: bool
  errorMessage :: "string option"

record list_result =
  lr_username :: string
  lr_expiresAt :: "int option"
  isExpired :: bool
  activeConnections :: int

record health_check_result =
  health_status :: string
  health_message :: string
  health_timestamp :: int
  setupValidation :: "(string \<times> string) list option"
  poolStats :: "(nat \<times> nat \<times> nat) option"
  health_error :: "string option"

record connection_config =
  conn_type :: string
  conn_host :: string
  conn_port :: int
  conn_database :: string
  conn_sslMode :: "string option"

text \<open>The statements the provider sends, with their bound parameters.\<close>

datatype sql =
    Begin
  | Commit
  | Rollback
  | Select_1
  | Select_version
  | Select_gk_create_ephemeral_user string string int string int
  | Select_gk_drop_user string
  | Select_gk_list_ephemeral_users
  | Select_gk_cleanup_expired_users int
  | Select_gk_validate_setup

datatype sql_result =
    NoRows
  | BoolRow bool
  | TextRow string
  | ListRows "list_row list"
  | CleanupRows "cleanup_row list"
  | CheckRows "(string \<times> string \<times> string) list"

datatype provider_call =
    InitializeCall
  | CreateEphemeralUserCall create_request
  | DropUserCall string
  | CleanupExpiredUsersCall int

text \<open>The audit payload handed to the logger by \<^verbatim>\<open>auditEvent\<close>.\<close>

record audit_entry =
  eventType :: string
  audit_sessionId :: "string option"
  audit_user :: "string option"
  audit_correlationId :: "string option"
  eventHash :: string

text \<open>
  The trace records, in order, every call of a provider method by the orchestrator, every
  statement sent on the admin connection, every acquisition and release of a pool client,
  and every audit entry logged.
\<close>

datatype event =
    Call provider_call
  | Sql sql
  | Acquire
  | Release
  | Audit audit_entry

record pool =
  totalCount :: nat
  idleCount :: nat

text \<open>
  \<open>txn\<close> is the snapshot taken by \<^verbatim>\<open>BEGIN\<close> while a transaction is open. \<open>entropy\<close> is the
  byte stream behind \<^verbatim>\<open>crypto.randomBytes\<close>, \<open>consumed\<close> the number of bytes drawn.
  \<open>faults\<close> scripts the driver: each \<^verbatim>\<open>pool.connect()\<close> and each \<^verbatim>\<open>client.query()\<close> takes
  the next entry, and \<open>Some e\<close> makes that call throw \<open>e\<close> without effect on the database
  (connection loss, timeout, pool exhaustion); an empty script means no fault.
  \<open>pg_pool\<close> and \<open>pg_config\<close> are the provider's fields \<^verbatim>\<open>pool\<close> and \<^verbatim>\<open>config\<close>.
\<close>

record world =
  db :: db_state
  txn :: "db_state option"
  clock :: int
  entropy :: "nat \<Rightarrow> 8 word"
  consumed :: nat
  faults :: "js_error option list"
  pg_pool :: "pool option"
  pg_config :: "connection_config option"
  trace :: "event list"

definition emit :: "event \<Rightarrow> world \<Rightarrow> world" where
  "emit e w = w\<lparr>trace := trace w @ [e]\<rparr>"

text \<open>\<^verbatim>\<open>crypto.randomBytes(n)\<close>.\<close>

definition randomBytes :: "nat \<Rightarrow> world \<Rightarrow> 8 word list \<times> world" where
  "randomBytes n w =
     (map (entropy w) [consumed w ..< consumed w + n], w\<lparr>consumed := consumed w + n\<rparr>)"

definition next_fault :: "world \<Rightarrow> js_error option \<times> world" where
  "next_fault w = (case faults w of [] \<Rightarrow> (None, w) | f # fs \<Rightarrow> (f, w\<lparr>faults := fs\<rparr>))"

definition int4 :: "int \<Rightarrow> bool" where
  "int4 i = (- 2147483648 \<le> i \<and> i \<le> 2147483647)"

text \<open>
  What the server does with a statement that reaches it. An \<^verbatim>\<open>INTEGER\<close> parameter outside
  the 32-bit range is refused. \<^verbatim>\<open>ROLLBACK\<close> restores the snapshot of the open transaction.
\<close>

definition execute :: "sql \<Rightarrow> world \<Rightarrow> (string + sql_result) \<times> world" where
  "execute q w =
     (case q of
        Begin \<Rightarrow> (Inr NoRows, case txn w of None \<Rightarrow> w\<lparr>txn := Some (db w)\<rparr> | Some s \<Rightarrow> w)
      | Commit \<Rightarrow> (Inr NoRows, w\<lparr>txn := None\<rparr>)
      | Rollback \<Rightarrow> (Inr NoRows, case txn w of None \<Rightarrow> w | Some s \<Rightarrow> w\<lparr>db := s, txn := None\<rparr>)
      | Select_1 \<Rightarrow> (Inr NoRows, w)
      | Select_version \<Rightarrow> (Inr (TextRow (server_version (db w))), w)
      | Select_gk_create_ephemeral_user u p t r lim \<Rightarrow>
          if \<not> int4 lim
          then (Inl (''value '' @ quoted (string_of_int lim) @ '' is out of range for type integer''), w)
          else (case gk_create_ephemeral_user (Some u) (Some p) t r lim (clock w) (db w) of
                  Inl m \<Rightarrow> (Inl m, w)
                | Inr d \<Rightarrow> (Inr NoRows, w\<lparr>db := d\<rparr>))
      | Select_gk_drop_user u \<Rightarrow>
          (case gk_drop_user (Some u) (db w) of
             (Inl m, d) \<Rightarrow> (Inl m, w\<lparr>db := d\<rparr>)
           | (Inr b, d) \<Rightarrow> (Inr (BoolRow b), w\<lparr>db := d\<rparr>))
      | Select_gk_list_ephemeral_users \<Rightarrow>
          (Inr (ListRows (gk_list_ephemeral_users (clock w) (db w))), w)
      | Select_gk_cleanup_expired_users n \<Rightarrow>
          if \<not> int4 n
          then (Inl (''value '' @ quoted (string_of_int n) @ '' is out of range for type integer''), w)
          else (case gk_cleanup_expired_users n (clock w) (db w) of
                  (rows, d) \<Rightarrow> (Inr (CleanupRows rows), w\<lparr>db := d\<rparr>))
      | Select_gk_validate_setup \<Rightarrow> (Inr (CheckRows (gk_validate_setup (db w))), w))"

text \<open>\<^verbatim>\<open>client.query(...)\<close>.\<close>

definition client_query :: "sql \<Rightarrow> world \<Rightarrow> (js_error + sql_result) \<times> world" where
  "client_query q w =
     (case next_fault (emit (Sql q) w) of
        (Some e, w1) \<Rightarrow> (Inl e, w1)
      | (None, w1) \<Rightarrow>
          (case execute q w1 of
             (Inl m, w2) \<Rightarrow> (Inl (Error m), w2)
           | (Inr r, w2) \<Rightarrow> (Inr r, w2)))"

text \<open>
  \<^verbatim>\<open>pool.connect()\<close> takes an idle client or opens a new one; \<^verbatim>\<open>client.release()\<close> returns
  it to the idle set.
\<close>

definition acquire :: "pool \<Rightarrow> pool" where
  "acquire p = (if idleCount p > 0 then p\<lparr>idleCount := idleCount p - 1\<rparr>
                else p\<lparr>totalCount := totalCount p + 1\<rparr>)"

definition pool_connect :: "world \<Rightarrow> (js_error + unit) \<times> world" where
  "pool_connect w =
     (case next_fault w of
        (Some e, w1) \<Rightarrow> (Inl e, w1)
      | (None, w1) \<Rightarrow> (Inr (), emit Acquire (w1\<lparr>pg_pool := map_option acquire (pg_pool w1)\<rparr>)))"

definition client_release :: "world \<Rightarrow> world" where
  "client_release w =
     emit Release (w\<lparr>pg_pool := map_option (\<lambda>p. p\<lparr>idleCount := idleCount p + 1\<rparr>) (pg_pool w)\<rparr>)"

subsection \<open>The PostgreSQL provider (\<^verbatim>\<open>postgres-provider.ts\<close>)\<close>

definition NOT_INITIALIZED :: js_error where
  "NOT_INITIALIZED = DatabaseProviderError ''Provider not initialized'' ''NOT_INITIALIZED'' False"

definition ProviderInitializationError :: "string \<Rightarrow> js_error" where
  "ProviderInitializationError m =
     DatabaseProviderError (''Failed to initialize postgres provider: '' @ m) ''PROVIDER_INIT_ERROR'' True"

text \<open>
  \<^verbatim>\<open>initialize(config, credentials)\<close>. The fields \<^verbatim>\<open>config\<close> and \<^verbatim>\<open>pool\<close> are assigned
  before the probe, so they stay assigned when the probe fails.
\<close>

definition initialize :: "connection_config \<Rightarrow> string \<times> string \<Rightarrow> world \<Rightarrow> (js_error + unit) \<times> world" where
  "initialize config credentials w =
     (case (if conn_type config \<noteq> ''postgres''
            then (Inl (ProviderInitializationError (''Invalid database type: '' @ conn_type config)),
                  w\<lparr>pg_config := Some config\<rparr>)
            else (case pool_connect (w\<lparr>pg_config := Some config,
                                       pg_pool := Some \<lparr>totalCount = 0, idleCount = 0\<rparr>\<rparr>) of
                    (Inl e, w1) \<Rightarrow> (Inl e, w1)
                  | (Inr u, w1) \<Rightarrow>
                      (case client_query Select_1 w1 of
                         (r, w2) \<Rightarrow> (case r of Inl e \<Rightarrow> Inl e | Inr x \<Rightarrow> Inr (), client_release w2))))
      of
        (Inr u, w') \<Rightarrow> (Inr (), w')
      | (Inl error, w') \<Rightarrow>
          (Inl (case error_message error of
                  Some m \<Rightarrow> ProviderInitializationError m
                | None \<Rightarrow> ProviderInitializationError ''Unknown initialization error''), w'))"

text \<open>\<^verbatim>\<open>generateDsn(config, username, password)\<close>.\<close>

definition generateDsn :: "connection_config \<Rightarrow> string \<Rightarrow> string \<Rightarrow> string" where
  "generateDsn config username password =
     (let sslMode = (case conn_sslMode config of
                       None \<Rightarrow> ''prefer''
                     | Some m \<Rightarrow> if m = [] then ''prefer'' else m)
      in ''postgresql://'' @ encodeURIComponent username @ '':'' @ encodeURIComponent password
         @ ''@'' @ conn_host config @ '':'' @ string_of_int (conn_port config)
         @ ''/'' @ conn_database config @ ''?sslmode='' @ sslMode)"

text \<open>\<^verbatim>\<open>getPostgresVersion(client)\<close>: any failure yields \<^verbatim>\<open>'unknown'\<close>.\<close>

definition getPostgresVersion :: "world \<Rightarrow> string \<times> world" where
  "getPostgresVersion w =
     (case client_query Select_version w of
        (Inr (TextRow v), w1) \<Rightarrow> (if v = [] then ''unknown'' else v, w1)
      | (r, w1) \<Rightarrow> (''unknown'', w1))"

text \<open>
  The outer \<^verbatim>\<open>catch\<close> of \<^verbatim>\<open>createEphemeralUser\<close>: the mapping of the caught error to a
  provider error.
\<close>

definition map_create_error :: "create_request \<Rightarrow> js_error \<Rightarrow> js_error" where
  "map_create_error request error =
     (case error_message error of
        Some m \<Rightarrow>
          if str_includes m ''already exists''
          then DatabaseProviderError (''User '' @ req_username request @ '' already exists'')
                 ''USER_EXISTS'' False
          else if str_includes m ''Role'' \<and> str_includes m ''does not exist''
          then DatabaseProviderError (''Role '' @ req_role request @ '' does not exist'')
                 ''ROLE_NOT_FOUND'' False
          else DatabaseProviderError ''Failed to create ephemeral user'' ''USER_CREATION_FAILED'' True
      | None \<Rightarrow>
          DatabaseProviderError ''Failed to create ephemeral user'' ''USER_CREATION_FAILED'' True)"

text \<open>The inner \<^verbatim>\<open>catch (dbError)\<close>: \<^verbatim>\<open>ROLLBACK\<close>, then rethrow.\<close>

definition rollback_rethrow :: "js_error \<Rightarrow> world \<Rightarrow> (js_error + create_result) \<times> world" where
  "rollback_rethrow dbError w =
     (case client_query Rollback w of
        (Inl e, w1) \<Rightarrow> (Inl e, w1)
      | (Inr r, w1) \<Rightarrow> (Inl dbError, w1))"

text \<open>The body of the outer \<^verbatim>\<open>try\<close> of \<^verbatim>\<open>createEphemeralUser\<close>.\<close>

definition create_transaction :: "connection_config \<Rightarrow> create_request \<Rightarrow> world \<Rightarrow> (js_error + create_result) \<times> world" where
  "create_transaction config request w =
     (let expiresAt = clock w + req_ttlMinutes request * 60 * 1000
      in case client_query Begin w of
           (Inl e, w1) \<Rightarrow> (Inl e, w1)
         | (Inr b, w1) \<Rightarrow>
             (case client_query (Select_gk_create_ephemeral_user (req_username request)
                                   (req_password request) expiresAt (req_role request)
                                   (req_connectionLimit request)) w1 of
                (Inl dbError, w2) \<Rightarrow> rollback_rethrow dbError w2
              | (Inr r, w2) \<Rightarrow>
                  (case client_query Commit w2 of
                     (Inl dbError, w3) \<Rightarrow> rollback_rethrow dbError w3
                   | (Inr c, w3) \<Rightarrow>
                       (case getPostgresVersion w3 of
                          (v, w4) \<Rightarrow>
                            (Inr \<lparr>cr_username = req_username request,
                                  cr_dsn = generateDsn config (req_username request)
                                             (req_password request),
                                  cr_expiresAt = expiresAt,
                                  cr_connectionLimit = req_connectionLimit request,
                                  cr_postgresVersion = v\<rparr>, w4)))))"

text \<open>
  \<^verbatim>\<open>createEphemeralUser(request)\<close>: the guard, \<^verbatim>\<open>pool.connect()\<close> outside the \<^verbatim>\<open>try\<close>,
  then \<^verbatim>\<open>try\<close> / \<^verbatim>\<open>catch\<close> / \<^verbatim>\<open>finally\<close>.
\<close>

definition createEphemeralUser :: "create_request \<Rightarrow> world \<Rightarrow> (js_error + create_result) \<times> world" where
  "createEphemeralUser request w =
     (case (pg_pool w, pg_config w) of
        (Some p, Some config) \<Rightarrow>
          (case pool_connect w of
             (Inl e, w1) \<Rightarrow> (Inl e, w1)
           | (Inr u, w1) \<Rightarrow>
               (case create_transaction config request w1 of
                  (Inr result, w2) \<Rightarrow> (Inr result, client_release w2)
                | (Inl error, w2) \<Rightarrow> (Inl (map_create_error request error), client_release w2)))
      | _ \<Rightarrow> (Inl NOT_INITIALIZED, w))"

text \<open>\<^verbatim>\<open>dropUser(username)\<close>.\<close>

definition dropUser :: "string \<Rightarrow> world \<Rightarrow> (js_error + bool) \<times> world" where
  "dropUser username w =
     (case pg_pool w of
        None \<Rightarrow> (Inl NOT_INITIALIZED, w)
      | Some p \<Rightarrow>
          (case pool_connect w of
             (Inl e, w1) \<Rightarrow> (Inl e, w1)
           | (Inr u, w1) \<Rightarrow>
               (case client_query (Select_gk_drop_user username) w1 of
                  (Inr result, w2) \<Rightarrow>
                    (Inr (case result of BoolRow b \<Rightarrow> b | _ \<Rightarrow> False), client_release w2)
                | (Inl error, w2) \<Rightarrow>
                    (Inl (DatabaseProviderError ''Failed to drop user'' ''USER_DROP_FAILED'' True),
                     client_release w2))))"

text \<open>\<^verbatim>\<open>listEphemeralUsers()\<close>.\<close>

definition listEphemeralUsers :: "world \<Rightarrow> (js_error + list_result list) \<times> world" where
  "listEphemeralUsers w =
     (case pg_pool w of
        None \<Rightarrow> (Inl NOT_INITIALIZED, w)
      | Some p \<Rightarrow>
          (case pool_connect w of
             (Inl e, w1) \<Rightarrow> (Inl e, w1)
           | (Inr u, w1) \<Rightarrow>
               (case client_query Select_gk_list_ephemeral_users w1 of
                  (Inr result, w2) \<Rightarrow>
                    (Inr (map (\<lambda>row. \<lparr>lr_username = list_username row,
                                       lr_expiresAt = valid_until row,
                                       isExpired = is_expired row,
                                       activeConnections = int (active_connections row)\<rparr>)
                            (case result of ListRows rows \<Rightarrow> rows | _ \<Rightarrow> [])),
                     client_release w2)
                | (Inl error, w2) \<Rightarrow>
                    (Inl (DatabaseProviderError ''Failed to list users'' ''USER_LIST_FAILED'' True),
                     client_release w2))))"

text \<open>
  \<^verbatim>\<open>cleanupExpiredUsers(olderThanMinutes = 5)\<close>; \<^verbatim>\<open>row.error_message || undefined\<close> turns
  an empty message into none.
\<close>

definition cleanupExpiredUsers :: "int option \<Rightarrow> world \<Rightarrow> (js_error + cleanup_result list) \<times> world" where
  "cleanupExpiredUsers olderThanMinutes' w =
     (let olderThanMinutes = (case olderThanMinutes' of None \<Rightarrow> 5 | Some n \<Rightarrow> n)
      in case pg_pool w of
           None \<Rightarrow> (Inl NOT_INITIALIZED, w)
         | Some p \<Rightarrow>
             (case pool_connect w of
                (Inl e, w1) \<Rightarrow> (Inl e, w1)
              | (Inr u, w1) \<Rightarrow>
                  (case client_query (Select_gk_cleanup_expired_users olderThanMinutes) w1 of
                     (Inr result, w2) \<Rightarrow>
                       (Inr (map (\<lambda>row. \<lparr>ucr_username = row_username row,
                                          wasExpired = was_expired row,
                                          dropped = row_dropped row,
                                          errorMessage = (case error_message_col row of
                                                            None \<Rightarrow> None
                                                          | Some m \<Rightarrow> if m = [] then None else Some m)\<rparr>)
                               (case result of CleanupRows rows \<Rightarrow> rows | _ \<Rightarrow> [])),
                        client_release w2)
                   | (Inl error, w2) \<Rightarrow>
                       (Inl (DatabaseProviderError ''Failed to cleanup expired users''
                               ''CLEANUP_FAILED'' True),
                        client_release w2))))"

text \<open>\<^verbatim>\<open>healthCheck()\<close>; here \<^verbatim>\<open>pool.connect()\<close> is inside the \<^verbatim>\<open>try\<close>.\<close>

definition unhealthy :: "int \<Rightarrow> string \<Rightarrow> string \<Rightarrow> health_check_result" where
  "unhealthy timestamp msg err =
     \<lparr>health_status = ''unhealthy'', health_message = msg, health_timestamp = timestamp,
      setupValidation = None, poolStats = None, health_error = Some err\<rparr>"

definition health_probe :: "int \<Rightarrow> world \<Rightarrow> (js_error + health_check_result) \<times> world" where
  "health_probe timestamp w =
     (case client_query Select_1 w of
        (Inl e, w1) \<Rightarrow> (Inl e, w1)
      | (Inr r, w1) \<Rightarrow>
          (case client_query Select_gk_validate_setup w1 of
             (Inl e, w2) \<Rightarrow> (Inl e, w2)
           | (Inr validation, w2) \<Rightarrow>
               (let checks = map (\<lambda>(check_name, status', details). (check_name, status'))
                               (case validation of CheckRows rows \<Rightarrow> rows | _ \<Rightarrow> []);
                    allOk = list_all (\<lambda>(check_name, status'). status' = ''OK'') checks
                in (Inr \<lparr>health_status = (if allOk then ''healthy'' else ''degraded''),
                         health_message = (if allOk then ''All checks passed''
                                           else ''Some validation checks failed''),
                         health_timestamp = timestamp,
                         setupValidation = Some checks,
                         poolStats = map_option (\<lambda>p. (totalCount p, idleCount p, 0)) (pg_pool w2),
                         health_error = None\<rparr>, w2))))"

definition healthCheck :: "world \<Rightarrow> health_check_result \<times> world" where
  "healthCheck w =
     (let timestamp = clock w
      in case pg_pool w of
           None \<Rightarrow> (unhealthy timestamp ''Provider not initialized'' ''Pool not created'', w)
         | Some p \<Rightarrow>
             (case pool_connect w of
                (Inl e, w1) \<Rightarrow>
                  (unhealthy timestamp ''Health check failed''
                     (case error_message e of Some m \<Rightarrow> m | None \<Rightarrow> ''Unknown error''), w1)
              | (Inr u, w1) \<Rightarrow>
                  (case health_probe timestamp w1 of
                     (Inr h, w2) \<Rightarrow> (h, client_release w2)
                   | (Inl e, w2) \<Rightarrow>
                       (unhealthy timestamp ''Health check failed''
                          (case error_message e of Some m \<Rightarrow> m | None \<Rightarrow> ''Unknown error''),
                        client_release w2))))"

subsection \<open>The provider interface\<close>

text \<open>
  The orchestrator sees a provider only through the \<^verbatim>\<open>DatabaseProvider\<close> interface; the
  methods it calls are the fields of this record.
\<close>

record provider =
  provider_type :: string
  provider_version :: string
  p_initialize :: "connection_config \<Rightarrow> string \<times> string \<Rightarrow> world \<Rightarrow> (js_error + unit) \<times> world"
  p_createEphemeralUser :: "create_request \<Rightarrow> world \<Rightarrow> (js_error + create_result) \<times> world"
  p_dropUser :: "string \<Rightarrow> world \<Rightarrow> (js_error + bool) \<times> world"
  p_cleanupExpiredUsers :: "int \<Rightarrow> world \<Rightarrow> (js_error + cleanup_result list) \<times> world"

definition PostgresProvider :: provider where
  "PostgresProvider =
     \<lparr>provider_type = ''postgres'', provider_version = ''1.0.0'',
      p_initialize = initialize,
      p_createEphemeralUser = createEphemeralUser,
      p_dropUser = dropUser,
      p_cleanupExpiredUsers = (\<lambda>n. cleanupExpiredUsers (Some n))\<rparr>"

subsection \<open>The agent orchestrator (\<^verbatim>\<open>GatekeeperAgent\<close>)\<close>

record agent_config =
  database_connection :: connection_config
  database_credentials :: "string \<times> string"
  sessionMaxTtlMinutes :: int

record job_error =
  code :: string
  message :: string
  retryable :: bool

text \<open>
  The result objects of \<^verbatim>\<open>processJob\<close>; a property the object does not have is \<open>None\<close>.
\<close>

record job_result =
  status :: string
  sessionId :: "string option"
  dsn :: "string option"
  expiresAt :: "int option"
  username :: "string option"
  cleanedCount :: "nat option"
  error :: "job_error option"

definition result :: "string \<Rightarrow> job_result" where
  "result s = \<lparr>status = s, sessionId = None, dsn = None, expiresAt = None, username = None,
               cleanedCount = None, error = None\<rparr>"

text \<open>
  \<^verbatim>\<open>initialize()\<close> of the agent. The flag \<^verbatim>\<open>initialized\<close> is the agent's only state; it is
  passed in and returned.
\<close>

definition agent_initialize :: "agent_config \<Rightarrow> provider \<Rightarrow> bool \<Rightarrow> world \<Rightarrow> (js_error + unit) \<times> bool \<times> world" where
  "agent_initialize cfg P initialized w =
     (if initialized then (Inr (), True, w)
      else (case p_initialize P (database_connection cfg) (database_credentials cfg)
                   (emit (Call InitializeCall) w) of
              (Inr u, w1) \<Rightarrow> (Inr (), True, w1)
            | (Inl e, w1) \<Rightarrow> (Inl e, False, w1)))"

text \<open>\<^verbatim>\<open>generateId()\<close> and \<^verbatim>\<open>generatePassword()\<close>.\<close>

definition generateId :: "world \<Rightarrow> string \<times> world" where
  "generateId w = (case randomBytes 6 w of (bs, w1) \<Rightarrow> (to_hex bs, w1))"

definition generatePassword :: "world \<Rightarrow> string \<times> world" where
  "generatePassword w =
     (case randomBytes 16 w of
        (a, w1) \<Rightarrow> (case randomBytes 4 w1 of (b, w2) \<Rightarrow> (to_base64 a @ to_hex b, w2)))"

text \<open>\<^verbatim>\<open>findUsernameForSession(sessionId)\<close>: the lookup is not implemented and returns null.\<close>

definition findUsernameForSession :: "string \<Rightarrow> string option" where
  "findUsernameForSession sessionId' = None"

text \<open>
  \<^verbatim>\<open>auditEvent(event)\<close>: hashes \<^verbatim>\<open>JSON.stringify({type, data})\<close> and hands the entry to the
  logger. It writes nothing to the database.
\<close>

definition auditEvent :: "platform \<Rightarrow> string \<Rightarrow> string option \<Rightarrow> string option \<Rightarrow> string option \<Rightarrow> json
    \<Rightarrow> world \<Rightarrow> world" where
  "auditEvent L eventType' sessionId' username' correlationId' eventData w =
     emit (Audit \<lparr>eventType = eventType', audit_sessionId = sessionId', audit_user = username',
                  audit_correlationId = correlationId',
                  eventHash = sha256_hex L (JSON_stringify L
                                (JObj [(''type'', JStr eventType'), (''data'', eventData)]))\<rparr>) w"

definition provider_json :: "provider \<Rightarrow> json" where
  "provider_json P = JObj [(''type'', JStr (provider_type P)), (''version'', JStr (provider_version P))]"

definition created_event_data :: "provider \<Rightarrow> create_session_job \<Rightarrow> json" where
  "created_event_data P job =
     JObj ([(''jobId'', JStr (job_id job)),
            (''role'', JStr (role job)),
            (''ttlMinutes'', JNum (Integer (ttlMinutes job))),
            (''requester'', JObj ((''userId'', JStr (userId (requester job)))
                                 # (case email (requester job) of
                                      None \<Rightarrow> [] | Some e \<Rightarrow> [(''email'', JStr e)])))]
           @ (case reason job of None \<Rightarrow> [] | Some r \<Rightarrow> [(''reason'', JStr r)])
           @ [(''target'', JObj [(''host'', JStr (host (target job))),
                                 (''port'', JNum (Integer (port (target job)))),
                                 (''database'', JStr (database (target job)))]),
              (''provider'', provider_json P)])"

text \<open>
  \<^verbatim>\<open>createSession(job, logger)\<close>. \<open>generate_credentials\<close> is the start of its \<^verbatim>\<open>try\<close>
  block: the session id, the username, the password and the request built from them.
  \<open>createSession_try\<close> is the whole \<^verbatim>\<open>try\<close> block together with its \<^verbatim>\<open>catch\<close>, which
  rethrows a \<^verbatim>\<open>ValidationError\<close> and replaces any other error by a retryable
  \<^verbatim>\<open>DatabaseError\<close>.
\<close>

definition generate_credentials :: "create_session_job \<Rightarrow> world \<Rightarrow> (string \<times> create_request) \<times> world" where
  "generate_credentials job w =
     (case generateId w of (id1, w1) \<Rightarrow>
      case generateId w1 of (id2, w2) \<Rightarrow>
      case generatePassword w2 of (password, w3) \<Rightarrow>
        ((''ses_'' @ id1,
          \<lparr>req_username = ''gk_'' @ id2, req_password = password, req_role = role job,
           req_ttlMinutes = ttlMinutes job, req_connectionLimit = 2\<rparr>), w3))"

definition createSession_try :: "platform \<Rightarrow> provider \<Rightarrow> create_session_job \<Rightarrow> world
    \<Rightarrow> (js_error + job_result) \<times> world" where
  "createSession_try L P job w =
     (case generate_credentials job w of
        ((sessionId', request), w3) \<Rightarrow>
          (case p_createEphemeralUser P request (emit (Call (CreateEphemeralUserCall request)) w3) of
             (Inl error', w4) \<Rightarrow>
               (Inl (if is_ValidationError error' then error'
                     else DatabaseError ''Failed to create ephemeral session'' True), w4)
           | (Inr created, w4) \<Rightarrow>
               (Inr ((result ''ready'')
                       \<lparr>sessionId := Some sessionId', dsn := Some (cr_dsn created),
                        expiresAt := Some (cr_expiresAt created),
                        username := Some (req_username request)\<rparr>),
                auditEvent L ''session.created'' (Some sessionId') (Some (req_username request))
                  (Some (correlationId job)) (created_event_data P job) w4)))"

definition createSession :: "platform \<Rightarrow> agent_config \<Rightarrow> provider \<Rightarrow> create_session_job \<Rightarrow> world
    \<Rightarrow> (js_error + job_result) \<times> world" where
  "createSession L cfg P job w =
     (if ttlMinutes job > sessionMaxTtlMinutes cfg
      then (Inl (ValidationError (''TTL '' @ string_of_int (ttlMinutes job)
                    @ '' exceeds maximum allowed '' @ string_of_int (sessionMaxTtlMinutes cfg)
                    @ '' minutes'') None), w)
      else createSession_try L P job w)"

text \<open>\<^verbatim>\<open>revokeSession(job, logger)\<close>; it catches everything and returns a result.\<close>

definition revokeSession :: "platform \<Rightarrow> provider \<Rightarrow> revoke_session_job \<Rightarrow> world \<Rightarrow> job_result \<times> world" where
  "revokeSession L P job w =
     (case findUsernameForSession (revoke_sessionId job) of
        None \<Rightarrow> (result ''not_found'', w)
      | Some username' \<Rightarrow>
          (case p_dropUser P username' (emit (Call (DropUserCall username')) w) of
             (Inr success, w1) \<Rightarrow>
               if success
               then (result ''revoked'',
                     auditEvent L ''session.revoked'' (Some (revoke_sessionId job)) (Some username')
                       (Some (revoke_correlationId job))
                       (JObj [(''jobId'', JStr (revoke_id job)), (''revokedBy'', JStr ''agent''),
                              (''provider'', provider_json P)]) w1)
               else (result ''not_found'', w1)
           | (Inl error', w1) \<Rightarrow>
               ((result ''failed'')
                  \<lparr>error := Some \<lparr>code = ''REVOCATION_ERROR'', message = ''Failed to revoke session'',
                                  retryable = True\<rparr>\<rparr>, w1)))"

text \<open>\<^verbatim>\<open>cleanup(job, logger)\<close>; it catches everything and returns a result.\<close>

definition cleanup :: "platform \<Rightarrow> provider \<Rightarrow> cleanup_job \<Rightarrow> world \<Rightarrow> job_result \<times> world" where
  "cleanup L P job w =
     (case p_cleanupExpiredUsers P (olderThanMinutes job)
             (emit (Call (CleanupExpiredUsersCall (olderThanMinutes job))) w) of
        (Inr cleanupResults, w1) \<Rightarrow>
          (let successfulCleanups = filter dropped cleanupResults
           in ((result ''completed'')\<lparr>cleanedCount := Some (length successfulCleanups)\<rparr>,
               if length successfulCleanups > 0
               then auditEvent L ''sessions.cleaned'' None None (Some (cleanup_correlationId job))
                      (JObj [(''jobId'', JStr (cleanup_id job)),
                             (''olderThanMinutes'', JNum (Integer (olderThanMinutes job))),
                             (''cleanedCount'', JNum (Integer (int (length successfulCleanups)))),
                             (''cleanedUsers'', JArr (map (\<lambda>r. JStr (ucr_username r)) successfulCleanups)),
                             (''provider'', provider_json P)]) w1
               else w1))
      | (Inl error', w1) \<Rightarrow>
          ((result ''failed'')
             \<lparr>cleanedCount := Some 0,
              error := Some \<lparr>code = ''CLEANUP_ERROR'',
                             message = ''Failed to cleanup expired sessions'',
                             retryable = True\<rparr>\<rparr>, w1))"

text \<open>The \<^verbatim>\<open>catch\<close> of \<^verbatim>\<open>processJob\<close>: the result built from a caught error.\<close>

definition failed_result :: "js_error \<Rightarrow> job_result" where
  "failed_result error' =
     (case error' of
        ValidationError m f \<Rightarrow>
          (result ''failed'')\<lparr>error := Some \<lparr>code = ''VALIDATION_ERROR'', message = m,
                                             retryable = False\<rparr>\<rparr>
      | _ \<Rightarrow>
          (result ''failed'')\<lparr>error := Some \<lparr>code = ''INTERNAL_ERROR'',
                                             message = ''Internal server error'',
                                             retryable = True\<rparr>\<rparr>)"

text \<open>The \<^verbatim>\<open>try\<close> of \<^verbatim>\<open>processJob\<close>: decoding and routing.\<close>

definition route :: "platform \<Rightarrow> agent_config \<Rightarrow> provider \<Rightarrow> json \<Rightarrow> world \<Rightarrow> (js_error + job_result) \<times> world" where
  "route L cfg P jobData w =
     (case validateAgentJob L jobData of
        Inl e \<Rightarrow> (Inl e, w)
      | Inr (CreateSession job) \<Rightarrow> createSession L cfg P job w
      | Inr (RevokeSession job) \<Rightarrow> (case revokeSession L P job w of (r, w1) \<Rightarrow> (Inr r, w1))
      | Inr (Cleanup job) \<Rightarrow> (case cleanup L P job w of (r, w1) \<Rightarrow> (Inr r, w1)))"

text \<open>
  \<^verbatim>\<open>processJob(jobData, correlationId)\<close>. Initialisation happens before the \<^verbatim>\<open>try\<close>, so its
  error is thrown to the caller; every error of the \<^verbatim>\<open>try\<close> becomes a failed result. The
  second argument of the source only labels log lines.
\<close>

definition processJob :: "platform \<Rightarrow> agent_config \<Rightarrow> provider \<Rightarrow> json \<Rightarrow> bool \<Rightarrow> world
    \<Rightarrow> (js_error + job_result) \<times> bool \<times> world" where
  "processJob L cfg P jobData initialized w =
     (case agent_initialize cfg P initialized w of
        (Inl e, i, w0) \<Rightarrow> (Inl e, i, w0)
      | (Inr u, i, w0) \<Rightarrow>
          (case route L cfg P jobData w0 of
             (Inr r, w1) \<Rightarrow> (Inr r, i, w1)
           | (Inl error', w1) \<Rightarrow> (Inr (failed_result error'), i, w1)))"

text \<open>
  The world in which \<^verbatim>\<open>processJob\<close> decodes and routes the job: the given world when the
  agent is already initialised, the world left by the provider's initialisation otherwise.
\<close>

definition after_initialize :: "agent_config \<Rightarrow> provider \<Rightarrow> bool \<Rightarrow> world \<Rightarrow> world" where
  "after_initialize cfg P initialized w = snd (snd (agent_initialize cfg P initialized w))"

text \<open>The two failed results the \<^verbatim>\<open>catch\<close> of \<^verbatim>\<open>processJob\<close> can build.\<close>

definition validation_failure :: "string \<Rightarrow> job_result" where
  "validation_failure m =
     (result ''failed'')\<lparr>error := Some \<lparr>code = ''VALIDATION_ERROR'', message = m,
                                        retryable = False\<rparr>\<rparr>"

definition internal_failure :: job_result where
  "internal_failure =
     (result ''failed'')\<lparr>error := Some \<lparr>code = ''INTERNAL_ERROR'',
                                        message = ''Internal server error'',
                                        retryable = True\<rparr>\<rparr>"

text \<open>
  Vocabulary for the statements about the provider. \<open>same_env\<close>: nothing but the database,
  the open transaction, the fault script and the trace differs. \<open>create_statement\<close>: the
  one statement that invokes the privileged helper. \<open>outstanding\<close>: the clients of a pool
  that are checked out. \<open>released_once\<close>: the events added to the trace start with the
  acquisition of a client and end with its release, there is exactly one of each, and the
  number of clients checked out is what it was before.
\<close>

definition same_env :: "world \<Rightarrow> world \<Rightarrow> bool" where
  "same_env w w1 = (clock w1 = clock w \<and> entropy w1 = entropy w \<and> consumed w1 = consumed w \<and>
                    pg_pool w1 = pg_pool w \<and> pg_config w1 = pg_config w)"

definition create_statement :: "create_request \<Rightarrow> world \<Rightarrow> sql" where
  "create_statement request w =
     Select_gk_create_ephemeral_user (req_username request) (req_password request)
       (clock w + req_ttlMinutes request * 60 * 1000) (req_role request)
       (req_connectionLimit request)"

definition outstanding :: "pool \<Rightarrow> int" where
  "outstanding p = int (totalCount p) - int (idleCount p)"

definition released_once :: "world \<Rightarrow> world \<Rightarrow> bool" where
  "released_once w w' =
     (let new = drop (length (trace w)) (trace w')
      in take (length (trace w)) (trace w') = trace w \<and>
         new \<noteq> [] \<and> hd new = Acquire \<and> last new = Release \<and>
         count_list new Acquire = 1 \<and> count_list new Release = 1 \<and>
         map_option outstanding (pg_pool w') = map_option outstanding (pg_pool w))"






subsection \<open>Concrete instances\<close>

text \<open>
  The database as the bootstrap script leaves it, a platform, a configuration with the
  default maximum TTL of 1440 minutes, and a world in which nothing has run yet.
\<close>

definition group_role :: pg_role where
  "group_role = \<lparr>rolcanlogin = False, rolpassword = None, rolvaliduntil = None,
                 rolconnlimit = - 1, rolmemberof = [], rolconfig = []\<rparr>"

definition bootstrap_db :: db_state where
  "bootstrap_db =
     \<lparr>pg_roles =
        [(''gatekeeper_admin'',
          group_role\<lparr>rolcanlogin := True,
                     rolpassword := Some ''gatekeeper_admin_password_change_in_production'',
                     rolmemberof := [''app_read'', ''app_write'', ''app_admin'', ''app_analyst'']\<rparr>),
         (''app_read'', group_role), (''app_write'', group_role),
         (''app_admin'', group_role), (''app_analyst'', group_role)],
      pg_stat_activity = [],
      acl = [(''app_read'', TablesInPublic), (''app_write'', TablesInPublic),
             (''app_admin'', TablesInPublic), (''app_admin'', SequencesInPublic),
             (''app_analyst'', TablesInPublic), (''app_analyst'', FunctionsInPublic)],
      pg_proc = [''gk_create_ephemeral_user'', ''gk_drop_user'', ''gk_list_ephemeral_users'',
                 ''gk_cleanup_expired_users'', ''gk_validate_setup''],
      sample_data = 3,
      gatekeeper_audit =
        [\<lparr>event_type = ''setup.completed'', session_id = None, audit_username = None,
          correlation_id = Some ''5f0c1b1e-6c1f-4d5e-9f43-0a1b2c3d4e5f'',
          event_data = JObj [(''version'', JStr ''1.0.0'')],
          prev_hash = None,
          event_hash =
            Some ''4c80b7edd8af5c81f3cc93d62d10875d9fdf94a8ed7f067904881991c0822c70''\<rparr>],
      pg_backend_pid = 100,
      server_version = ''PostgreSQL 16.0''\<rparr>"

definition test_platform :: platform where
  "test_platform =
     \<lparr>is_uuid = (\<lambda>s. length s = 36),
      is_email = (\<lambda>s. CHR ''@'' \<in> set s),
      default_message = (\<lambda>path v. ''Invalid input''),
      sha256_hex = (\<lambda>s. ''sha256-of-'' @ s),
      JSON_stringify = (\<lambda>j. ''json'')\<rparr>"

definition test_connection :: connection_config where
  "test_connection = \<lparr>conn_type = ''postgres'', conn_host = ''db'', conn_port = 5432,
                       conn_database = ''app'', conn_sslMode = Some ''prefer''\<rparr>"

definition test_config :: agent_config where
  "test_config = \<lparr>database_connection = test_connection,
                   database_credentials = (''gatekeeper_admin'', ''admin-password''),
                   sessionMaxTtlMinutes = 1440\<rparr>"

definition test_world :: world where
  "test_world = \<lparr>db = bootstrap_db, txn = None, clock = 1700000000000,
                  entropy = (\<lambda>n. of_nat (17 * n + 3)), consumed = 0, faults = [],
                  pg_pool = None, pg_config = None, trace = []\<rparr>"

text \<open>The jobs of the end-to-end scenarios.\<close>

definition create_fields :: "int \<Rightarrow> (string \<times> json) list" where
  "create_fields ttl =
     [(''id'', JStr ''j1''),
      (''correlationId'', JStr ''c07a0c9b-7f6d-4b8f-8b0c-1d8b9eb9f4f8''),
      (''type'', JStr ''create_session''),
      (''target'', JObj [(''host'', JStr ''db''), (''port'', JNum (Integer 5432)),
                         (''database'', JStr ''app'')]),
      (''role'', JStr ''app_read''),
      (''ttlMinutes'', JNum (Integer ttl)),
      (''requester'', JObj [(''userId'', JStr ''u1'')])]"

definition create_json :: "int \<Rightarrow> json" where
  "create_json ttl = JObj (create_fields ttl)"

definition create_job :: "int \<Rightarrow> create_session_job" where
  "create_job ttl =
     \<lparr>job_id = ''j1'', correlationId = ''c07a0c9b-7f6d-4b8f-8b0c-1d8b9eb9f4f8'',
      target = \<lparr>host = ''db'', port = 5432, database = ''app'', sslMode = ''prefer''\<rparr>,
      role = ''app_read'', ttlMinutes = ttl,
      requester = \<lparr>userId = ''u1'', email = None\<rparr>, reason = None\<rparr>"

definition revoke_json :: json where
  "revoke_json =
     JObj [(''id'', JStr ''j3''),
           (''correlationId'', JStr ''c07a0c9b-7f6d-4b8f-8b0c-1d8b9eb9f4f8''),
           (''type'', JStr ''revoke_session''),
           (''sessionId'', JStr ''ses_unknown'')]"

definition revoke_job :: revoke_session_job where
  "revoke_job = \<lparr>revoke_id = ''j3'',
                  revoke_correlationId = ''c07a0c9b-7f6d-4b8f-8b0c-1d8b9eb9f4f8'',
                  revoke_sessionId = ''ses_unknown''\<rparr>"

definition cleanup_json :: json where
  "cleanup_json =
     JObj [(''id'', JStr ''j5''),
           (''correlationId'', JStr ''c07a0c9b-7f6d-4b8f-8b0c-1d8b9eb9f4f8''),
           (''type'', JStr ''cleanup'')]"

definition cleanup_job :: cleanup_job where
  "cleanup_job = \<lparr>cleanup_id = ''j5'',
                   cleanup_correlationId = ''c07a0c9b-7f6d-4b8f-8b0c-1d8b9eb9f4f8'',
                   olderThanMinutes = 5\<rparr>"

text \<open>A configuration whose maximum TTL exceeds the bound built into the job schema.\<close>

definition config_2000 :: agent_config where
  "config_2000 = test_config\<lparr>sessionMaxTtlMinutes := 2000\<rparr>"

text \<open>
  A world in which the name that the next \<^verbatim>\<open>create_session\<close> job will generate is already
  taken, and the credentials that job generates there.
\<close>

definition collision_world :: world where
  "collision_world =
     test_world\<lparr>db := bootstrap_db\<lparr>pg_roles := pg_roles bootstrap_db @
        [(''gk_697a8b9cadbe'',
          group_role\<lparr>rolcanlogin := True, rolvaliduntil := Some 1700000300000\<rparr>)]\<rparr>\<rparr>"

definition collision_credentials :: "(string \<times> create_request) \<times> world" where
  "collision_credentials =
     generate_credentials (create_job 15)
       (after_initialize test_config PostgresProvider False collision_world)"

text \<open>
  A database with ephemeral principals at the instant 1700000000000: one expired ten
  minutes ago with an active and an idle session, one expired two minutes ago, one without
  expiry, one long expired that still owns an object, and one long expired whose name
  contains a second underscore.
\<close>

definition login_role :: "int option \<Rightarrow> pg_role" where
  "login_role until = \<lparr>rolcanlogin = True, rolpassword = Some ''secret'', rolvaliduntil = until,
                        rolconnlimit = 2, rolmemberof = [''app_read''],
                        rolconfig = [''search_path=public'']\<rparr>"

definition cleanup_db :: db_state where
  "cleanup_db =
     bootstrap_db\<lparr>
       pg_roles := pg_roles bootstrap_db @
         [(''gk_a1b2c3d4e5f6'', login_role (Some 1699999400000)),
          (''gk_0f0e0d0c0b0a'', login_role (Some 1699999880000)),
          (''gk_noexpiry'', login_role None),
          (''gk_0123456789ab'', login_role (Some 1699990000000)),
          (''gk_a_b'', login_role (Some 1699990000000))],
       pg_stat_activity :=
         [\<lparr>pid = 7, usename = ''gk_a1b2c3d4e5f6'', state = ''active''\<rparr>,
          \<lparr>pid = 8, usename = ''gk_a1b2c3d4e5f6'', state = ''idle''\<rparr>,
          \<lparr>pid = 100, usename = ''gatekeeper_admin'', state = ''active''\<rparr>],
       acl := acl bootstrap_db @
         [(''gk_a1b2c3d4e5f6'', TablesInPublic),
          (''gk_0123456789ab'', OtherObject ''reports'')]\<rparr>"

definition cleanup_world :: world where
  "cleanup_world = test_world\<lparr>db := cleanup_db\<rparr>"

text \<open>
  The world once the provider is initialised, a request, and the same world with a driver
  that fails the next \<^verbatim>\<open>pool.connect()\<close>.
\<close>

definition ready_world :: world where
  "ready_world = after_initialize test_config PostgresProvider False test_world"

definition test_request :: create_request where
  "test_request = \<lparr>req_username = ''gk_697a8b9cadbe'', req_password = ''s3cr3t+/pw'',
                    req_role = ''app_read'', req_ttlMinutes = 15, req_connectionLimit = 2\<rparr>"

definition connect_fault_world :: world where
  "connect_fault_world =
     ready_world\<lparr>faults := [Some (Error ''timeout exceeded when trying to connect'')]\<rparr>"

text \<open>The worlds with a taken name and with ephemeral principals, once initialised.\<close>

definition ready_collision_world :: world where
  "ready_collision_world = after_initialize test_config PostgresProvider False collision_world"

definition ready_cleanup_world :: world where
  "ready_cleanup_world = after_initialize test_config PostgresProvider False cleanup_world"

text \<open>The result of scenario 1 in \<open>test_world\<close>.\<close>

definition ready_result :: job_result where
  "ready_result =
     (result ''ready'')
       \<lparr>sessionId := Some ''ses_031425364758'',
        dsn := Some (generateDsn test_connection ''gk_697a8b9cadbe''
                       ''z+DxAhMkNUZXaHmKm6y9zg==dff00112''),
        expiresAt := Some 1700000900000,
        username := Some ''gk_697a8b9cadbe''\<rparr>"

section \<open>Basic facts\<close>

subsection \<open>What the driver leaves alone\<close>

lemma next_fault_frame:
  "next_fault w = (f, w1) \<Longrightarrow>
     db w1 = db w \<and> txn w1 = txn w \<and> clock w1 = clock w \<and> entropy w1 = entropy w \<and>
     consumed w1 = consumed w \<and> pg_pool w1 = pg_pool w \<and> pg_config w1 = pg_config w \<and>
     trace w1 = trace w"
  by (auto simp: next_fault_def split: list.splits)

lemma execute_frame:
  "execute q w = (r, w1) \<Longrightarrow>
     clock w1 = clock w \<and> entropy w1 = entropy w \<and> consumed w1 = consumed w \<and>
     pg_pool w1 = pg_pool w \<and> pg_config w1 = pg_config w \<and> trace w1 = trace w \<and>
     faults w1 = faults w"
  by (cases q) (auto simp: execute_def split: if_splits option.splits sum.splits prod.splits)

lemma client_query_frame:
  "client_query q w = (r, w1) \<Longrightarrow>
     clock w1 = clock w \<and> entropy w1 = entropy w \<and> consumed w1 = consumed w \<and>
     pg_pool w1 = pg_pool w \<and> pg_config w1 = pg_config w \<and> trace w1 = trace w @ [Sql q]"
  by (auto simp: client_query_def emit_def split: prod.splits option.splits sum.splits
           dest!: next_fault_frame execute_frame)

subsection \<open>Unfolding the model on concrete inputs\<close>

lemmas eval_defs =
  processJob_def route_def agent_initialize_def after_initialize_def PostgresProvider_def
  initialize_def createSession_def createSession_try_def generate_credentials_def generateId_def
  generatePassword_def randomBytes_def createEphemeralUser_def create_transaction_def
  rollback_rethrow_def map_create_error_def getPostgresVersion_def generateDsn_def dropUser_def
  cleanupExpiredUsers_def listEphemeralUsers_def healthCheck_def health_probe_def cleanup_def
  revokeSession_def findUsernameForSession_def auditEvent_def failed_result_def result_def
  validation_failure_def internal_failure_def pool_connect_def acquire_def client_release_def
  client_query_def next_fault_def emit_def execute_def int4_def gk_create_ephemeral_user_def
  gk_drop_user_def gk_cleanup_expired_users_def cleanup_candidates_def revoke_privileges_def
  CREATE_ROLE_def DROP_ROLE_def GRANT_ROLE_def ALTER_ROLE_SET_def REVOKE_ALL_def update_role_def
  role_exists_def terminate_backends_def quoted_def gk_pattern_def gk_pattern_us_def is_alnum_def
  is_alnum_us_def is_digit_def is_lower_def is_upper_def to_hex_def hex_byte_def hex_digits_def
  base64_alphabet_def validateAgentJob_def validate_def AgentJobSchema_def
  CreateSessionJobSchema_def RevokeSessionJobSchema_def CleanupJobSchema_def
  DatabaseTargetSchema_def RequesterSchema_def RoleSchema_def z_enum_def z_int_def z_string_def
  z_string_min1_def z_string_uuid_def then_parse_def NOT_INITIALIZED_def
  ProviderInitializationError_def Let_def

lemmas instance_defs =
  test_world_def test_config_def test_connection_def test_platform_def bootstrap_db_def
  group_role_def create_json_def create_fields_def create_job_def revoke_json_def revoke_job_def
  cleanup_json_def cleanup_job_def config_2000_def collision_world_def cleanup_world_def
  cleanup_db_def login_role_def ready_world_def test_request_def connect_fault_world_def
  ready_collision_world_def ready_cleanup_world_def

subsection \<open>Decoding\<close>

lemma then_parse_Inr: "then_parse r f = Inr v \<longleftrightarrow> (\<exists>a. r = Inr a \<and> f a = Inr v)"
  by (cases r) (auto simp: then_parse_def)

lemma validate_error: "validate schema data c = Inl e \<Longrightarrow> \<exists>m f. e = ValidationError m f"
  by (auto simp: validate_def split: sum.splits prod.splits)

lemma validate_Inr: "validate schema data c = Inr v \<longleftrightarrow> schema data = Inr v"
  by (auto simp: validate_def split: sum.splits prod.splits)

lemma validateAgentJob_error: "validateAgentJob L data = Inl e \<Longrightarrow> \<exists>m f. e = ValidationError m f"
  unfolding validateAgentJob_def by (rule validate_error)

lemma z_int_Inr:
  "z_int L path lo lo_msg hi v = Inr i \<longleftrightarrow>
     v = Some (JNum (Integer i)) \<and> lo \<le> i \<and> (case hi of None \<Rightarrow> True | Some (h, m) \<Rightarrow> i \<le> h)"
  by (auto simp: z_int_def split: option.splits json.splits js_number.splits if_splits prod.splits)

lemma CreateSessionJobSchema_ttl:
  "CreateSessionJobSchema L kvs = Inr job \<Longrightarrow>
     map_of kvs ''ttlMinutes'' = Some (JNum (Integer (ttlMinutes job))) \<and>
     1 \<le> ttlMinutes job \<and> ttlMinutes job \<le> 1440"
  by (auto simp: CreateSessionJobSchema_def then_parse_Inr z_int_Inr)

lemma validateAgentJob_create:
  assumes "map_of kvs ''type'' = Some (JStr ''create_session'')"
  shows "validateAgentJob L (JObj kvs) = Inr j \<longleftrightarrow>
           (\<exists>job. j = CreateSession job \<and> CreateSessionJobSchema L kvs = Inr job)"
  using assms by (auto simp: validateAgentJob_def validate_Inr AgentJobSchema_def then_parse_Inr)

lemma CreateSessionJobSchema_set_ttl:
  assumes "CreateSessionJobSchema L kvs = Inr job" and "1 \<le> t" and "t \<le> 1440"
  shows "CreateSessionJobSchema L ((''ttlMinutes'', JNum (Integer t)) # kvs) =
           Inr (job\<lparr>ttlMinutes := t\<rparr>)"
  using assms
  by (auto simp: CreateSessionJobSchema_def then_parse_Inr z_int_Inr)

subsection \<open>Routing\<close>

lemma failed_result_validation: "failed_result (ValidationError m f) = validation_failure m"
  by (simp add: failed_result_def validation_failure_def)

lemma failed_result_other: "\<not> is_ValidationError e \<Longrightarrow> failed_result e = internal_failure"
  by (cases e) (simp_all add: failed_result_def internal_failure_def)

lemma processJob_routed:
  assumes "fst (agent_initialize cfg P initialized w) = Inr u"
  shows "processJob L cfg P jobData initialized w =
           (case route L cfg P jobData (after_initialize cfg P initialized w) of
              (Inr r, w1) \<Rightarrow> (Inr r, fst (snd (agent_initialize cfg P initialized w)), w1)
            | (Inl e, w1) \<Rightarrow>
                (Inr (failed_result e), fst (snd (agent_initialize cfg P initialized w)), w1))"
  using assms
  by (auto simp: processJob_def after_initialize_def split: prod.splits sum.splits)

lemma route_over_max:
  assumes "map_of kvs ''type'' = Some (JStr ''create_session'')"
      and "map_of kvs ''ttlMinutes'' = Some (JNum (Integer t))"
      and "sessionMaxTtlMinutes cfg < t"
  shows "\<exists>m f. route L cfg P (JObj kvs) w = (Inl (ValidationError m f), w)"
proof (cases "validateAgentJob L (JObj kvs)")
  case (Inl e)
  then show ?thesis
    using validateAgentJob_error [OF Inl] by (auto simp: route_def)
next
  case (Inr j)
  then obtain job where j: "j = CreateSession job" and s: "CreateSessionJobSchema L kvs = Inr job"
    using validateAgentJob_create [OF assms(1)] by blast
  have "ttlMinutes job = t"
    using CreateSessionJobSchema_ttl [OF s] assms(2) by simp
  then show ?thesis
    using Inr j assms(3) by (simp add: route_def createSession_def)
qed

text \<open>
  Whatever the provider throws in \<^verbatim>\<open>createEphemeralUser\<close>, unless it is a
  \<^verbatim>\<open>ValidationError\<close>, reaches the caller of \<^verbatim>\<open>processJob\<close> as \<^verbatim>\<open>INTERNAL_ERROR\<close> with
  \<^verbatim>\<open>retryable: true\<close>: the provider's own code and retryability flag are dropped.
\<close>

lemma provider_error_becomes_internal_error:
  assumes "validateAgentJob L jobData = Inr (CreateSession job)"
      and "ttlMinutes job \<le> sessionMaxTtlMinutes cfg"
      and "fst (agent_initialize cfg P initialized w) = Inr u"
      and "generate_credentials job (after_initialize cfg P initialized w) = ((sid, req), w3)"
      and "fst (p_createEphemeralUser P req (emit (Call (CreateEphemeralUserCall req)) w3)) =
             Inl (DatabaseProviderError m c r)"
  shows "fst (processJob L cfg P jobData initialized w) = Inr internal_failure"
  using assms
  by (auto simp: processJob_routed route_def createSession_def createSession_try_def
                 failed_result_other
           split: prod.splits sum.splits)

subsection \<open>The provider, statement by statement\<close>

lemma same_env_refl [simp]: "same_env w w"
  by (simp add: same_env_def)

lemma same_env_trans: "same_env w w1 \<Longrightarrow> same_env w1 w2 \<Longrightarrow> same_env w w2"
  by (simp add: same_env_def)

lemma pool_connect_cases:
  "pool_connect w = (r, w1) \<Longrightarrow>
     db w1 = db w \<and> txn w1 = txn w \<and> clock w1 = clock w \<and> entropy w1 = entropy w \<and>
     consumed w1 = consumed w \<and> pg_config w1 = pg_config w \<and>
     (case r of
        Inl e \<Rightarrow> trace w1 = trace w \<and> pg_pool w1 = pg_pool w
      | Inr u \<Rightarrow> trace w1 = trace w @ [Acquire] \<and> pg_pool w1 = map_option acquire (pg_pool w))"
  by (auto simp: pool_connect_def emit_def split: prod.splits option.splits dest!: next_fault_frame)

lemma client_release_frame:
  "db (client_release w) = db w \<and> txn (client_release w) = txn w \<and>
   clock (client_release w) = clock w \<and> entropy (client_release w) = entropy w \<and>
   consumed (client_release w) = consumed w \<and> pg_config (client_release w) = pg_config w \<and>
   trace (client_release w) = trace w @ [Release] \<and>
   pg_pool (client_release w) = map_option (\<lambda>p. p\<lparr>idleCount := idleCount p + 1\<rparr>) (pg_pool w)"
  by (simp add: client_release_def emit_def)

lemma client_query_env:
  "client_query q w = (r, w1) \<Longrightarrow> same_env w w1 \<and> trace w1 = trace w @ [Sql q]"
  by (auto simp: same_env_def dest: client_query_frame)

lemma client_query_Begin:
  "client_query Begin w = (r, w1) \<Longrightarrow>
     same_env w w1 \<and> trace w1 = trace w @ [Sql Begin] \<and> db w1 = db w \<and>
     (case r of
        Inl e \<Rightarrow> txn w1 = txn w
      | Inr x \<Rightarrow> txn w1 = (case txn w of None \<Rightarrow> Some (db w) | Some s \<Rightarrow> Some s))"
  by (frule client_query_env)
     (auto simp: client_query_def execute_def emit_def split: prod.splits option.splits
           dest!: next_fault_frame)

lemma client_query_Commit:
  "client_query Commit w = (r, w1) \<Longrightarrow>
     same_env w w1 \<and> trace w1 = trace w @ [Sql Commit] \<and> db w1 = db w \<and>
     (case r of Inl e \<Rightarrow> txn w1 = txn w | Inr x \<Rightarrow> txn w1 = None)"
  by (frule client_query_env)
     (auto simp: client_query_def execute_def emit_def split: prod.splits option.splits
           dest!: next_fault_frame)

lemma client_query_Rollback:
  "client_query Rollback w = (r, w1) \<Longrightarrow>
     same_env w w1 \<and> trace w1 = trace w @ [Sql Rollback] \<and>
     (case r of
        Inl e \<Rightarrow> db w1 = db w \<and> txn w1 = txn w
      | Inr x \<Rightarrow> txn w1 = None \<and> db w1 = (case txn w of None \<Rightarrow> db w | Some s \<Rightarrow> s))"
  by (frule client_query_env)
     (auto simp: client_query_def execute_def emit_def split: prod.splits option.splits
           dest!: next_fault_frame)

lemma client_query_create:
  "client_query (Select_gk_create_ephemeral_user u p t r lim) w = (res, w1) \<Longrightarrow>
     same_env w w1 \<and> trace w1 = trace w @ [Sql (Select_gk_create_ephemeral_user u p t r lim)] \<and>
     txn w1 = txn w \<and>
     (case res of
        Inl e \<Rightarrow> db w1 = db w
      | Inr x \<Rightarrow> gk_create_ephemeral_user (Some u) (Some p) t r lim (clock w) (db w) = Inr (db w1))"
  by (frule client_query_env)
     (auto simp: client_query_def execute_def emit_def
           split: prod.splits option.splits sum.splits if_splits
           dest!: next_fault_frame)

lemma getPostgresVersion_frame:
  "getPostgresVersion w = (v, w1) \<Longrightarrow>
     same_env w w1 \<and> trace w1 = trace w @ [Sql Select_version] \<and> db w1 = db w \<and> txn w1 = txn w"
proof -
  assume a: "getPostgresVersion w = (v, w1)"
  obtain r w2 where q: "client_query Select_version w = (r, w2)" by force
  have "w1 = w2"
    using a q by (auto simp: getPostgresVersion_def split: sum.splits sql_result.splits if_splits)
  moreover have "db w2 = db w \<and> txn w2 = txn w"
    using q by (auto simp: client_query_def execute_def emit_def split: prod.splits option.splits
                     dest!: next_fault_frame)
  ultimately show ?thesis using client_query_env [OF q] by simp
qed

lemma rollback_rethrow_cases:
  "rollback_rethrow dbError w = (r, w1) \<Longrightarrow>
     (\<exists>e. r = Inl e) \<and> same_env w w1 \<and> trace w1 = trace w @ [Sql Rollback] \<and>
     (txn w1 = None \<longrightarrow> db w1 = (case txn w of None \<Rightarrow> db w | Some s \<Rightarrow> s))"
proof -
  assume a: "rollback_rethrow dbError w = (r, w1)"
  obtain rr w2 where q: "client_query Rollback w = (rr, w2)" by force
  have "w1 = w2" and "\<exists>e. r = Inl e"
    using a q by (auto simp: rollback_rethrow_def split: sum.splits)
  then show ?thesis
    using client_query_Rollback [OF q] by (auto split: sum.splits option.splits)
qed

lemma create_transaction_cases:
  assumes "create_transaction config request w = (r, w1)"
  shows "same_env w w1 \<and>
         ((\<exists>e. r = Inl e) \<and>
            (trace w1 = trace w @ [Sql Begin] \<or>
             trace w1 = trace w @ [Sql Begin, Sql (create_statement request w), Sql Rollback] \<or>
             trace w1 = trace w @ [Sql Begin, Sql (create_statement request w), Sql Commit,
                                   Sql Rollback]) \<and>
            (txn w = None \<longrightarrow> txn w1 = None \<longrightarrow> db w1 = db w)
          \<or>
          (\<exists>v. r = Inr \<lparr>cr_username = req_username request,
                         cr_dsn = generateDsn config (req_username request) (req_password request),
                         cr_expiresAt = clock w + req_ttlMinutes request * 60 * 1000,
                         cr_connectionLimit = req_connectionLimit request,
                         cr_postgresVersion = v\<rparr>) \<and>
            trace w1 = trace w @ [Sql Begin, Sql (create_statement request w), Sql Commit,
                                  Sql Select_version] \<and>
            gk_create_ephemeral_user (Some (req_username request)) (Some (req_password request))
              (clock w + req_ttlMinutes request * 60 * 1000) (req_role request)
              (req_connectionLimit request) (clock w) (db w) = Inr (db w1))"
proof -
  let ?c = "create_statement request w"
  obtain rb wb where b: "client_query Begin w = (rb, wb)" by force
  note fb = client_query_Begin [OF b]
  show ?thesis
  proof (cases rb)
    case (Inl eb)
    then have "r = Inl eb" "w1 = wb"
      using assms b by (simp_all add: create_transaction_def)
    then show ?thesis using fb Inl by simp
  next
    case rbr: (Inr xb)
    obtain rc wc where c: "client_query ?c wb = (rc, wc)" by force
    note fc = client_query_create [OF c [unfolded create_statement_def]]
    have cw: "clock wb = clock w" using fb by (simp add: same_env_def)
    show ?thesis
    proof (cases rc)
      case (Inl ec)
      then have rr: "rollback_rethrow ec wc = (r, w1)"
        using assms b c rbr by (simp add: create_transaction_def create_statement_def)
      note fr = rollback_rethrow_cases [OF rr]
      have "same_env w w1" using fb fc fr by (blast intro: same_env_trans)
      moreover have "trace w1 = trace w @ [Sql Begin, Sql ?c, Sql Rollback]"
        using fb fc fr by (simp add: create_statement_def)
      moreover have "txn w = None \<longrightarrow> txn w1 = None \<longrightarrow> db w1 = db w"
        using fb fc fr Inl rbr by (auto split: option.splits)
      ultimately show ?thesis using fr by blast
    next
      case rcr: (Inr xc)
      obtain rm wm where m: "client_query Commit wc = (rm, wm)" by force
      note fm = client_query_Commit [OF m]
      show ?thesis
      proof (cases rm)
        case (Inl em)
        then have rr: "rollback_rethrow em wm = (r, w1)"
          using assms b c m rbr rcr by (simp add: create_transaction_def create_statement_def)
        note fr = rollback_rethrow_cases [OF rr]
        have "same_env w w1" using fb fc fm fr by (blast intro: same_env_trans)
        moreover have "trace w1 = trace w @ [Sql Begin, Sql ?c, Sql Commit, Sql Rollback]"
          using fb fc fm fr by (simp add: create_statement_def)
        moreover have "txn w = None \<longrightarrow> txn w1 = None \<longrightarrow> db w1 = db w"
          using fb fc fm fr Inl rbr rcr by (auto split: option.splits)
        ultimately show ?thesis using fr by blast
      next
        case rmr: (Inr xm)
        obtain v wv where g: "getPostgresVersion wm = (v, wv)" by force
        note fg = getPostgresVersion_frame [OF g]
        have res: "r = Inr \<lparr>cr_username = req_username request,
                         cr_dsn = generateDsn config (req_username request) (req_password request),
                         cr_expiresAt = clock w + req_ttlMinutes request * 60 * 1000,
                         cr_connectionLimit = req_connectionLimit request,
                         cr_postgresVersion = v\<rparr>" and w1: "w1 = wv"
          using assms b c m g rbr rcr rmr
          by (simp_all add: create_transaction_def create_statement_def)
        have "same_env w w1" using fb fc fm fg w1 by (blast intro: same_env_trans)
        moreover have "trace w1 = trace w @ [Sql Begin, Sql ?c, Sql Commit, Sql Select_version]"
          using fb fc fm fg w1 by (simp add: create_statement_def)
        moreover have "gk_create_ephemeral_user (Some (req_username request))
              (Some (req_password request))
              (clock w + req_ttlMinutes request * 60 * 1000) (req_role request)
              (req_connectionLimit request) (clock w) (db w) = Inr (db w1)"
          using fb fc fm fg w1 rcr cw by simp
        ultimately show ?thesis using res by blast
      qed
    qed
  qed
qed


lemma count_list_Sql [simp]:
  "count_list (map Sql qs) Acquire = 0" "count_list (map Sql qs) Release = 0"
  by (induction qs) simp_all

lemma outstanding_release_acquire [simp]:
  "outstanding ((acquire p)\<lparr>idleCount := Suc (idleCount (acquire p))\<rparr>) = outstanding p"
  by (simp add: outstanding_def acquire_def)

lemma released_onceI:
  assumes "trace w' = trace w @ Acquire # map Sql qs @ [Release]"
      and "pg_pool w' = map_option (\<lambda>p. p\<lparr>idleCount := idleCount p + 1\<rparr>)
                          (map_option acquire (pg_pool w))"
  shows "released_once w w'"
  using assms by (cases "pg_pool w") (simp_all add: released_once_def)

lemma createEphemeralUser_connected:
  assumes "pg_pool w = Some p" and "pg_config w = Some config"
      and "pool_connect w = (Inr u, wa)" and "create_transaction config request wa = (r, wb)"
  shows "createEphemeralUser request w =
           (case r of Inr res \<Rightarrow> Inr res | Inl e \<Rightarrow> Inl (map_create_error request e),
            client_release wb)"
  using assms by (simp add: createEphemeralUser_def split: sum.splits)

lemma createEphemeralUser_released:
  assumes "pg_pool w = Some p" and "pg_config w = Some config" and "fst (pool_connect w) = Inr u"
  shows "released_once w (snd (createEphemeralUser request w))"
proof -
  obtain wa where c: "pool_connect w = (Inr u, wa)"
    using assms(3) by (cases "pool_connect w") auto
  obtain r wb where t: "create_transaction config request wa = (r, wb)" by force
  note fc = pool_connect_cases [OF c]
  note ft = create_transaction_cases [OF t]
  let ?w' = "snd (createEphemeralUser request w)"
  have w': "?w' = client_release wb"
    by (simp add: createEphemeralUser_connected [OF assms(1,2) c t])
  have pool: "pg_pool ?w' = map_option (\<lambda>p. p\<lparr>idleCount := idleCount p + 1\<rparr>)
                               (map_option acquire (pg_pool w))"
    using fc ft by (simp add: w' client_release_frame same_env_def)
  have "\<exists>qs. trace wb = trace wa @ map Sql qs"
  proof -
    let ?c = "create_statement request wa"
    from ft have "trace wb = trace wa @ map Sql [Begin] \<or>
                  trace wb = trace wa @ map Sql [Begin, ?c, Rollback] \<or>
                  trace wb = trace wa @ map Sql [Begin, ?c, Commit, Rollback] \<or>
                  trace wb = trace wa @ map Sql [Begin, ?c, Commit, Select_version]"
      by auto
    then show ?thesis by blast
  qed
  then obtain qs where "trace wb = trace wa @ map Sql qs" ..
  then have "trace ?w' = trace w @ Acquire # map Sql qs @ [Release]"
    using fc by (simp add: w' client_release_frame)
  then show ?thesis using pool by (rule released_onceI)
qed

lemma dropUser_connected:
  assumes "pg_pool w = Some p" and "pool_connect w = (Inr u, wa)"
      and "client_query (Select_gk_drop_user name) wa = (r, wb)"
  shows "dropUser name w =
           (case r of
              Inr res \<Rightarrow> Inr (case res of BoolRow b \<Rightarrow> b | _ \<Rightarrow> False)
            | Inl e \<Rightarrow> Inl (DatabaseProviderError ''Failed to drop user'' ''USER_DROP_FAILED'' True),
            client_release wb)"
  using assms by (simp add: dropUser_def split: sum.splits)

lemma single_query_released:
  assumes "pool_connect w = (Inr u, wa)" and "client_query q wa = (r, wb)"
  shows "released_once w (client_release wb)"
proof -
  note fc = pool_connect_cases [OF assms(1)]
  note fq = client_query_env [OF assms(2)]
  have "trace (client_release wb) = trace w @ Acquire # map Sql [q] @ [Release]"
    using fc fq by (simp add: client_release_frame)
  moreover have "pg_pool (client_release wb) =
      map_option (\<lambda>p. p\<lparr>idleCount := idleCount p + 1\<rparr>) (map_option acquire (pg_pool w))"
    using fc fq by (simp add: client_release_frame same_env_def)
  ultimately show ?thesis by (rule released_onceI)
qed

lemma dropUser_released:
  assumes "pg_pool w = Some p" and "fst (pool_connect w) = Inr u"
  shows "released_once w (snd (dropUser name w))"
proof -
  obtain wa where c: "pool_connect w = (Inr u, wa)"
    using assms(2) by (cases "pool_connect w") auto
  obtain r wb where q: "client_query (Select_gk_drop_user name) wa = (r, wb)" by force
  show ?thesis
    using single_query_released [OF c q] by (simp add: dropUser_connected [OF assms(1) c q])
qed

lemma listEphemeralUsers_released:
  assumes "pg_pool w = Some p" and "fst (pool_connect w) = Inr u"
  shows "released_once w (snd (listEphemeralUsers w))"
proof -
  obtain wa where c: "pool_connect w = (Inr u, wa)"
    using assms(2) by (cases "pool_connect w") auto
  obtain r wb where q: "client_query Select_gk_list_ephemeral_users wa = (r, wb)" by force
  have "snd (listEphemeralUsers w) = client_release wb"
    using assms(1) c q by (simp add: listEphemeralUsers_def split: sum.splits)
  then show ?thesis using single_query_released [OF c q] by simp
qed

lemma cleanupExpiredUsers_released:
  assumes "pg_pool w = Some p" and "fst (pool_connect w) = Inr u"
  shows "released_once w (snd (cleanupExpiredUsers older w))"
proof -
  let ?n = "case older of None \<Rightarrow> 5 | Some n \<Rightarrow> n"
  obtain wa where c: "pool_connect w = (Inr u, wa)"
    using assms(2) by (cases "pool_connect w") auto
  obtain r wb where q: "client_query (Select_gk_cleanup_expired_users ?n) wa = (r, wb)" by force
  have "snd (cleanupExpiredUsers older w) = client_release wb"
    using assms(1) c q by (simp add: cleanupExpiredUsers_def Let_def split: sum.splits)
  then show ?thesis using single_query_released [OF c q] by simp
qed

lemma health_probe_trace:
  assumes "health_probe ts w = (r, w1)"
  shows "same_env w w1 \<and> (\<exists>qs. trace w1 = trace w @ map Sql qs)"
proof -
  obtain r1 wa where a: "client_query Select_1 w = (r1, wa)" by force
  note fa = client_query_env [OF a]
  show ?thesis
  proof (cases r1)
    case (Inl e)
    then have "w1 = wa" using assms a by (simp add: health_probe_def)
    moreover have "trace wa = trace w @ map Sql [Select_1]" using fa by simp
    ultimately show ?thesis using fa by blast
  next
    case (Inr x)
    obtain r2 wb where b: "client_query Select_gk_validate_setup wa = (r2, wb)" by force
    note fb = client_query_env [OF b]
    have "w1 = wb"
      using assms a b Inr by (auto simp: health_probe_def Let_def split: sum.splits)
    moreover have "trace wb = trace w @ map Sql [Select_1, Select_gk_validate_setup]"
      using fa fb by simp
    moreover have "same_env w wb" using fa fb by (blast intro: same_env_trans)
    ultimately show ?thesis by blast
  qed
qed

lemma healthCheck_released:
  assumes "pg_pool w = Some p" and "fst (pool_connect w) = Inr u"
  shows "released_once w (snd (healthCheck w))"
proof -
  obtain wa where c: "pool_connect w = (Inr u, wa)"
    using assms(2) by (cases "pool_connect w") auto
  obtain r wb where h: "health_probe (clock w) wa = (r, wb)" by force
  note fc = pool_connect_cases [OF c]
  from health_probe_trace [OF h] obtain qs where
    e: "same_env wa wb" and t: "trace wb = trace wa @ map Sql qs" by blast
  have w': "snd (healthCheck w) = client_release wb"
    using assms(1) c h by (simp add: healthCheck_def Let_def split: sum.splits)
  have "trace (client_release wb) = trace w @ Acquire # map Sql qs @ [Release]"
    using fc t by (simp add: client_release_frame)
  moreover have "pg_pool (client_release wb) =
      map_option (\<lambda>p. p\<lparr>idleCount := idleCount p + 1\<rparr>) (map_option acquire (pg_pool w))"
    using fc e by (simp add: client_release_frame same_env_def)
  ultimately show ?thesis unfolding w' by (rule released_onceI)
qed

subsection \<open>The drop helper\<close>













subsection \<open>The cleanup helper\<close>










subsection \<open>The concrete instances\<close>


lemma test_world_initializes:
  "fst (agent_initialize test_config PostgresProvider False test_world) = Inr ()"
  by (simp add: eval_defs instance_defs)

lemma create_json_valid:
  "1 \<le> ttl \<Longrightarrow> ttl \<le> 1440 \<Longrightarrow>
     validateAgentJob test_platform (create_json ttl) = Inr (CreateSession (create_job ttl))"
  by (simp add: eval_defs instance_defs)

lemma create_fields_type: "map_of (create_fields ttl) ''type'' = Some (JStr ''create_session'')"
  by (simp add: create_fields_def)

lemma create_fields_ttl: "map_of (create_fields ttl) ''ttlMinutes'' = Some (JNum (Integer ttl))"
  by (simp add: create_fields_def)



lemma config_2000_initializes:
  "fst (agent_initialize config_2000 PostgresProvider False test_world) = Inr ()"
  by (simp add: eval_defs instance_defs)

lemma ready_world_pool: "pg_pool ready_world = Some \<lparr>totalCount = 1, idleCount = 1\<rparr>"
  by (simp add: eval_defs instance_defs)

lemma ready_world_config: "pg_config ready_world = Some test_connection"
  by (simp add: eval_defs instance_defs)

lemma ready_world_connects: "fst (pool_connect ready_world) = Inr ()"
  by (simp add: eval_defs instance_defs)












subsection \<open>Generated identifiers and passwords\<close>

lemma hex_digits_nth: "i < 16 \<Longrightarrow> is_hex (hex_digits ! i) \<and> is_alnum (hex_digits ! i)"
proof -
  assume "i < 16"
  moreover have "length hex_digits = 16"
    by (simp add: hex_digits_def)
  ultimately have "hex_digits ! i \<in> set hex_digits"
    by (metis nth_mem)
  moreover have "\<forall>c \<in> set hex_digits. is_alnum c"
    by (simp add: hex_digits_def is_alnum_def is_digit_def is_lower_def is_upper_def)
  ultimately show ?thesis by (simp add: is_hex_def)
qed

lemma unat_byte_bounds: "unat (b :: 8 word) div 16 < 16 \<and> unat b mod 16 < 16 \<and> unat b < 256"
proof -
  have "unat b < 2 ^ 8" using unsigned_less [of b] by simp
  then show ?thesis by simp
qed

lemma to_hex_length: "length (to_hex bs) = 2 * length bs"
  by (induction bs) (simp_all add: to_hex_def hex_byte_def)

lemma to_hex_chars: "list_all is_hex (to_hex bs) \<and> list_all is_alnum (to_hex bs)"
  by (induction bs) (simp_all add: to_hex_def hex_byte_def hex_digits_nth unat_byte_bounds)

lemma gk_pattern_hex: "bs \<noteq> [] \<Longrightarrow> gk_pattern (''gk_'' @ to_hex bs)"
  using to_hex_length [of bs] to_hex_chars [of bs]
  by (cases bs) (auto simp: gk_pattern_def)

lemma to_base64_length: "length (to_base64 bs) = 4 * ((length bs + 2) div 3)"
proof (induction bs rule: to_base64.induct)
  case (4 a b c rest)
  have "(length (a # b # c # rest) + 2) div 3 = Suc ((length rest + 2) div 3)"
    by simp
  then show ?case using 4 by simp
qed simp_all

lemma generate_credentials_eq:
  "generate_credentials job w =
     ((''ses_'' @ to_hex (map (entropy w) [consumed w ..< consumed w + 6]),
       \<lparr>req_username = ''gk_'' @ to_hex (map (entropy w) [consumed w + 6 ..< consumed w + 12]),
        req_password = to_base64 (map (entropy w) [consumed w + 12 ..< consumed w + 28])
                       @ to_hex (map (entropy w) [consumed w + 28 ..< consumed w + 32]),
        req_role = role job, req_ttlMinutes = ttlMinutes job, req_connectionLimit = 2\<rparr>),
      w\<lparr>consumed := consumed w + 32\<rparr>)"
  by (simp add: generate_credentials_def generateId_def generatePassword_def randomBytes_def
                add.assoc)

lemma entropy_split:
  "map f [c ..< c + 32] =
     map f [c ..< c + 6] @ map f [c + 6 ..< c + 12] @ map f [c + 12 ..< c + 28]
     @ map f [c + 28 ..< c + 32]"
proof -
  have "[c ..< c + 32] = [c ..< c + 6] @ [c + 6 ..< c + 12] @ [c + 12 ..< c + 28] @ [c + 28 ..< c + 32]"
    using upt_add_eq_append [of c "c + 6" 6] upt_add_eq_append [of c "c + 12" 16]
          upt_add_eq_append [of c "c + 28" 4]
    by (simp add: add.assoc)
  then show ?thesis by (simp only: map_append)
qed

text \<open>Both encodings are injective: the bytes can be read back from the text.\<close>

lemma hex_digits_inj:
  assumes "i < 16" and "j < 16" and "hex_digits ! i = hex_digits ! j"
  shows "i = j"
proof -
  have d: "distinct hex_digits" by (simp add: hex_digits_def)
  have l: "length hex_digits = 16" by (simp add: hex_digits_def)
  show ?thesis using assms d l by (simp add: nth_eq_iff_index_eq)
qed

lemma hex_byte_inj: "hex_byte a = hex_byte b \<Longrightarrow> a = b"
proof -
  assume h: "hex_byte a = hex_byte b"
  have "unat a div 16 = unat b div 16" and "unat a mod 16 = unat b mod 16"
    using h unat_byte_bounds [of a] unat_byte_bounds [of b]
    by (auto simp: hex_byte_def intro: hex_digits_inj)
  then have "unat a = unat b"
    by (metis div_mult_mod_eq)
  then show ?thesis by (simp add: word_unat_eq_iff)
qed

lemma to_hex_inj: "length xs = length ys \<Longrightarrow> to_hex xs = to_hex ys \<Longrightarrow> xs = ys"
proof (induction xs ys rule: list_induct2)
  case Nil
  then show ?case by simp
next
  case (Cons x xs y ys)
  have "hex_byte x = hex_byte y" and "to_hex xs = to_hex ys"
    using Cons.prems by (simp_all add: to_hex_def hex_byte_def)
  then show ?case using Cons.IH hex_byte_inj by simp
qed

lemma base64_alphabet_inj:
  assumes "i < 64" and "j < 64" and "base64_alphabet ! i = base64_alphabet ! j"
  shows "i = j"
proof -
  have d: "distinct base64_alphabet" by (simp add: base64_alphabet_def)
  have l: "length base64_alphabet = 64" by (simp add: base64_alphabet_def)
  show ?thesis using assms d l by (simp add: nth_eq_iff_index_eq)
qed

lemma base64_alphabet_not_pad: "i < 64 \<Longrightarrow> base64_alphabet ! i \<noteq> CHR ''=''"
proof -
  assume "i < 64"
  moreover have "length base64_alphabet = 64" by (simp add: base64_alphabet_def)
  ultimately have "base64_alphabet ! i \<in> set base64_alphabet" by (metis nth_mem)
  moreover have "CHR ''='' \<notin> set base64_alphabet" by (simp add: base64_alphabet_def)
  ultimately show ?thesis by metis
qed

text \<open>The four sextets of a group of three bytes.\<close>

lemma nat_sextet_bounds:
  fixes a b c :: nat
  assumes "a < 256" and "b < 256" and "c < 256"
  shows "a div 4 < 64" "(a mod 4) * 16 + b div 16 < 64" "(b mod 16) * 4 + c div 64 < 64"
        "c mod 64 < 64" "(a mod 4) * 16 < 64" "(b mod 16) * 4 < 64"
        "b div 16 < 16" "c div 64 < 4"
  using assms by arith+

lemma sextet_bounds:
  fixes a b c :: "8 word"
  shows "unat a div 4 < 64" "(unat a mod 4) * 16 + unat b div 16 < 64"
        "(unat b mod 16) * 4 + unat c div 64 < 64" "unat c mod 64 < 64"
        "(unat a mod 4) * 16 < 64" "(unat b mod 16) * 4 < 64"
        "unat b div 16 < 16" "unat c div 64 < 4"
  using nat_sextet_bounds [of "unat a" "unat b" "unat c"]
        unat_byte_bounds [of a] unat_byte_bounds [of b] unat_byte_bounds [of c]
  by simp_all

lemma split_digits:
  fixes x y x' y' k :: nat
  assumes "x * k + y = x' * k + y'" and "y < k" and "y' < k"
  shows "x = x' \<and> y = y'"
proof -
  have "(x * k + y) div k = x" "(x' * k + y') div k = x'"
    using assms(2,3) by simp_all
  then have "x = x'" using assms(1) by simp
  then show ?thesis using assms(1) by simp
qed

lemma unat_eqI: "unat (a :: 8 word) div k = unat (b :: 8 word) div k \<Longrightarrow>
    unat a mod k = unat b mod k \<Longrightarrow> a = b"
  by (metis div_mult_mod_eq word_unat_eq_iff)

lemma bytes_of_sextets:
  fixes a b c a' b' c' :: "8 word"
  assumes 1: "unat a div 4 = unat a' div 4"
      and 2: "(unat a mod 4) * 16 + unat b div 16 = (unat a' mod 4) * 16 + unat b' div 16"
      and 3: "(unat b mod 16) * 4 + unat c div 64 = (unat b' mod 16) * 4 + unat c' div 64"
      and 4: "unat c mod 64 = unat c' mod 64"
  shows "a = a' \<and> b = b' \<and> c = c'"
proof -
  have s2: "unat a mod 4 = unat a' mod 4 \<and> unat b div 16 = unat b' div 16"
    using split_digits [OF 2] sextet_bounds(7) by blast
  have s3: "unat b mod 16 = unat b' mod 16 \<and> unat c div 64 = unat c' div 64"
    using split_digits [OF 3] sextet_bounds(8) by blast
  show ?thesis
    using 1 4 s2 s3 by (blast intro: unat_eqI)
qed

lemma to_base64_nonempty: "bs \<noteq> [] \<Longrightarrow> length (to_base64 bs) \<ge> 4"
  by (cases bs rule: to_base64.cases) simp_all

lemma to_base64_inj: "to_base64 xs = to_base64 ys \<Longrightarrow> xs = ys"
proof (induction xs arbitrary: ys rule: to_base64.induct)
  case 1
  then show ?case using to_base64_nonempty [of ys] by (cases "ys = []") auto
next
  case (2 a)
  show ?case
  proof (cases ys rule: to_base64.cases)
    case 1
    then show ?thesis using 2 by simp
  next
    case (2 a')
    then have "base64_alphabet ! (unat a div 4) = base64_alphabet ! (unat a' div 4)"
      and "base64_alphabet ! ((unat a mod 4) * 16) = base64_alphabet ! ((unat a' mod 4) * 16)"
      using "2.prems" by simp_all
    then have "unat a div 4 = unat a' div 4" and "(unat a mod 4) * 16 = (unat a' mod 4) * 16"
      using sextet_bounds
      by (blast intro: base64_alphabet_inj)+
    then have "a = a'" by (auto intro: unat_eqI)
    then show ?thesis using 2 by simp
  next
    case (3 a' b')
    then have "base64_alphabet ! ((unat b' mod 16) * 4) = CHR ''=''"
      using "2.prems" by simp
    then show ?thesis using base64_alphabet_not_pad sextet_bounds(6) by blast
  next
    case (4 a' b' c' rest)
    then have "base64_alphabet ! ((unat b' mod 16) * 4 + unat c' div 64) = CHR ''=''"
      using "2.prems" by simp
    then show ?thesis using base64_alphabet_not_pad sextet_bounds(3) by blast
  qed
next
  case (3 a b)
  show ?case
  proof (cases ys rule: to_base64.cases)
    case 1
    then show ?thesis using 3 by simp
  next
    case (2 a')
    then have "base64_alphabet ! ((unat b mod 16) * 4) = CHR ''=''"
      using "3.prems" by simp
    then show ?thesis using base64_alphabet_not_pad sextet_bounds(6) by blast
  next
    case (3 a' b')
    then have "base64_alphabet ! (unat a div 4) = base64_alphabet ! (unat a' div 4)"
      and "base64_alphabet ! ((unat a mod 4) * 16 + unat b div 16) =
           base64_alphabet ! ((unat a' mod 4) * 16 + unat b' div 16)"
      and "base64_alphabet ! ((unat b mod 16) * 4) = base64_alphabet ! ((unat b' mod 16) * 4)"
      using "3.prems" by simp_all
    then have e: "unat a div 4 = unat a' div 4"
      "(unat a mod 4) * 16 + unat b div 16 = (unat a' mod 4) * 16 + unat b' div 16"
      "(unat b mod 16) * 4 = (unat b' mod 16) * 4"
      using sextet_bounds
      by (blast intro: base64_alphabet_inj)+
    have "unat a mod 4 = unat a' mod 4 \<and> unat b div 16 = unat b' div 16"
      using split_digits [OF e(2)] sextet_bounds(7) by blast
    then have "a = a'" and "b = b'" using e by (auto intro: unat_eqI)
    then show ?thesis using 3 by simp
  next
    case (4 a' b' c' rest)
    then have "base64_alphabet ! (unat c' mod 64) = CHR ''=''"
      using "3.prems" by simp
    then show ?thesis using base64_alphabet_not_pad sextet_bounds(4) by blast
  qed
next
  case (4 a b c rest)
  show ?case
  proof (cases ys rule: to_base64.cases)
    case 1
    then show ?thesis using "4.prems" by simp
  next
    case (2 a')
    then have "base64_alphabet ! ((unat b mod 16) * 4 + unat c div 64) = CHR ''=''"
      using "4.prems" by simp
    then show ?thesis using base64_alphabet_not_pad sextet_bounds(3) by blast
  next
    case (3 a' b')
    then have "base64_alphabet ! (unat c mod 64) = CHR ''=''"
      using "4.prems" by simp
    then show ?thesis using base64_alphabet_not_pad sextet_bounds(4) by blast
  next
    case (4 a' b' c' rest')
    then have "base64_alphabet ! (unat a div 4) = base64_alphabet ! (unat a' div 4)"
      and "base64_alphabet ! ((unat a mod 4) * 16 + unat b div 16) =
           base64_alphabet ! ((unat a' mod 4) * 16 + unat b' div 16)"
      and "base64_alphabet ! ((unat b mod 16) * 4 + unat c div 64) =
           base64_alphabet ! ((unat b' mod 16) * 4 + unat c' div 64)"
      and "base64_alphabet ! (unat c mod 64) = base64_alphabet ! (unat c' mod 64)"
      and r: "to_base64 rest = to_base64 rest'"
      using "4.prems" by simp_all
    then have "unat a div 4 = unat a' div 4"
      "(unat a mod 4) * 16 + unat b div 16 = (unat a' mod 4) * 16 + unat b' div 16"
      "(unat b mod 16) * 4 + unat c div 64 = (unat b' mod 16) * 4 + unat c' div 64"
      "unat c mod 64 = unat c' mod 64"
      using sextet_bounds
      by (blast intro: base64_alphabet_inj)+
    then have "a = a' \<and> b = b' \<and> c = c'" by (rule bytes_of_sextets)
    moreover have "rest = rest'" using "4.IH" r by simp
    ultimately show ?thesis using 4 by simp
  qed
qed

lemma password_inj:
  assumes "length a = 16" and "length a' = 16" and "length b = length b'"
      and "to_base64 a @ to_hex b = to_base64 a' @ to_hex b'"
  shows "a = a' \<and> b = b'"
proof -
  have "length (to_base64 a) = length (to_base64 a')"
    using assms(1,2) by (simp add: to_base64_length)
  then have "to_base64 a = to_base64 a'" and "to_hex b = to_hex b'"
    using assms(4) by simp_all
  then show ?thesis using to_base64_inj to_hex_inj assms(3) by blast
qed

subsection \<open>A creation that succeeds\<close>

lemma client_query_Select_1:
  "client_query Select_1 w = (r, w1) \<Longrightarrow>
     same_env w w1 \<and> trace w1 = trace w @ [Sql Select_1] \<and> db w1 = db w \<and> txn w1 = txn w"
  by (frule client_query_env)
     (auto simp: client_query_def execute_def emit_def split: prod.splits option.splits
           dest!: next_fault_frame)

lemma initialize_frame:
  assumes "initialize config credentials w = (r, w1)"
  shows "db w1 = db w \<and> clock w1 = clock w \<and> entropy w1 = entropy w \<and> consumed w1 = consumed w"
proof (cases "conn_type config = ''postgres''")
  case False
  then show ?thesis using assms by (auto simp: initialize_def split: sum.splits)
next
  case True
  let ?w = "w\<lparr>pg_config := Some config, pg_pool := Some \<lparr>totalCount = 0, idleCount = 0\<rparr>\<rparr>"
  obtain rc wa where c: "pool_connect ?w = (rc, wa)" by force
  note fc = pool_connect_cases [OF c]
  show ?thesis
  proof (cases rc)
    case (Inl e)
    then have "w1 = wa" using assms True c by (auto simp: initialize_def split: option.splits)
    then show ?thesis using fc by simp
  next
    case (Inr u)
    obtain rq wb where q: "client_query Select_1 wa = (rq, wb)" by force
    note fq = client_query_Select_1 [OF q]
    have "w1 = client_release wb"
      using assms True c q Inr by (auto simp: initialize_def split: sum.splits option.splits)
    then show ?thesis using fc fq by (simp add: client_release_frame same_env_def)
  qed
qed

lemma after_initialize_frame:
  "db (after_initialize cfg PostgresProvider initialized w) = db w \<and>
   clock (after_initialize cfg PostgresProvider initialized w) = clock w \<and>
   entropy (after_initialize cfg PostgresProvider initialized w) = entropy w \<and>
   consumed (after_initialize cfg PostgresProvider initialized w) = consumed w"
proof (cases initialized)
  case True
  then show ?thesis by (simp add: after_initialize_def agent_initialize_def)
next
  case False
  obtain r w1 where i: "initialize (database_connection cfg) (database_credentials cfg)
                          (emit (Call InitializeCall) w) = (r, w1)" by force
  have "after_initialize cfg PostgresProvider initialized w = w1"
    using False i
    by (auto simp: after_initialize_def agent_initialize_def PostgresProvider_def split: sum.splits)
  then show ?thesis using initialize_frame [OF i] by (simp add: emit_def)
qed

lemma gk_create_success:
  assumes "gk_create_ephemeral_user (Some u) (Some p) t r lim now d = Inr d'"
  shows "now < t \<and> gk_pattern_us u \<and> role_exists d r \<and> \<not> role_exists d u \<and>
         gatekeeper_audit d' = gatekeeper_audit d"
  using assms
  by (auto simp: gk_create_ephemeral_user_def CREATE_ROLE_def ALTER_ROLE_SET_def GRANT_ROLE_def
                 update_role_def
           split: if_splits)

lemma createEphemeralUser_success:
  assumes "createEphemeralUser request w = (Inr res, w')"
  shows "trace w' = trace w @ [Acquire, Sql Begin, Sql (create_statement request w), Sql Commit,
                               Sql Select_version, Release] \<and>
         cr_expiresAt res = clock w + req_ttlMinutes request * 60 * 1000 \<and>
         cr_username res = req_username request \<and>
         clock w' = clock w \<and> clock w < cr_expiresAt res \<and>
         gatekeeper_audit (db w') = gatekeeper_audit (db w)"
proof -
  from assms obtain p config where pc: "pg_pool w = Some p" "pg_config w = Some config"
    by (auto simp: createEphemeralUser_def split: option.splits)
  obtain rc wa where c: "pool_connect w = (rc, wa)" by force
  from assms pc c obtain u where rc: "rc = Inr u"
    by (cases rc) (auto simp: createEphemeralUser_def)
  note fc = pool_connect_cases [OF c [unfolded rc]]
  obtain r wb where t: "create_transaction config request wa = (r, wb)" by force
  note un = createEphemeralUser_connected [OF pc c [unfolded rc] t]
  from assms un have r: "r = Inr res" and w': "w' = client_release wb"
    by (cases r; simp)+
  note ft = create_transaction_cases [OF t]
  have cs: "create_statement request wa = create_statement request w"
    using fc by (simp add: create_statement_def)
  from ft r have
    tr: "trace wb = trace wa @ [Sql Begin, Sql (create_statement request wa), Sql Commit,
                                Sql Select_version]" and
    ex: "cr_expiresAt res = clock wa + req_ttlMinutes request * 60 * 1000" and
    un': "cr_username res = req_username request" and
    g: "gk_create_ephemeral_user (Some (req_username request)) (Some (req_password request))
          (clock wa + req_ttlMinutes request * 60 * 1000) (req_role request)
          (req_connectionLimit request) (clock wa) (db wa) = Inr (db wb)" and
    env: "same_env wa wb"
    by auto
  note gs = gk_create_success [OF g]
  show ?thesis
    using fc tr ex un' gs env cs
    by (simp add: w' client_release_frame same_env_def)
qed

lemma failed_result_status: "status (failed_result e) = ''failed''"
  by (cases e) (simp_all add: failed_result_def result_def)

lemma createSession_ready:
  assumes "validateAgentJob L jobData = Inr (CreateSession job)"
      and "fst (processJob L cfg P jobData initialized w) = Inr r"
      and "status r = ''ready''"
  shows "\<exists>sid request w3 created w4.
           generate_credentials job (after_initialize cfg P initialized w) = ((sid, request), w3) \<and>
           p_createEphemeralUser P request (emit (Call (CreateEphemeralUserCall request)) w3) =
             (Inr created, w4) \<and>
           r = (result ''ready'')\<lparr>sessionId := Some sid, dsn := Some (cr_dsn created),
                                  expiresAt := Some (cr_expiresAt created),
                                  username := Some (req_username request)\<rparr> \<and>
           snd (snd (processJob L cfg P jobData initialized w)) =
             auditEvent L ''session.created'' (Some sid) (Some (req_username request))
               (Some (correlationId job)) (created_event_data P job) w4"
proof -
  let ?w0 = "after_initialize cfg P initialized w"
  obtain ri i w0 where a: "agent_initialize cfg P initialized w = (ri, i, w0)"
    by (cases "agent_initialize cfg P initialized w") auto
  have ri: "ri = Inr ()"
    using assms(2) a by (cases ri) (auto simp: processJob_def)
  have w0: "?w0 = w0" using a by (simp add: after_initialize_def)
  obtain rr w1 where rt: "route L cfg P jobData w0 = (rr, w1)" by force
  have rr: "rr = Inr r" and w1: "snd (snd (processJob L cfg P jobData initialized w)) = w1"
    using assms(2,3) a ri rt failed_result_status
    by (cases rr; auto simp: processJob_def)+
  have cs: "createSession L cfg P job w0 = (Inr r, w1)"
    using rt rr assms(1) by (simp add: route_def)
  then have ct: "createSession_try L P job w0 = (Inr r, w1)"
    by (auto simp: createSession_def split: if_splits)
  obtain sid request w3 where g: "generate_credentials job w0 = ((sid, request), w3)"
    by (metis surj_pair)
  obtain rp w4 where p: "p_createEphemeralUser P request
                           (emit (Call (CreateEphemeralUserCall request)) w3) = (rp, w4)"
    by force
  from ct g p obtain created where "rp = Inr created"
    by (cases rp) (auto simp: createSession_try_def)
  then show ?thesis
    using ct g p w0 w1 by (auto simp: createSession_try_def)
qed

subsection \<open>Scenario 1 evaluated\<close>

lemma create_15_ready:
  "fst (processJob test_platform test_config PostgresProvider (create_json 15) False test_world) =
     Inr ready_result"
  by (simp add: eval_defs instance_defs ready_result_def upt_rec)

lemma create_15_audit:
  "map event_type (gatekeeper_audit (db (snd (snd
      (processJob test_platform test_config PostgresProvider (create_json 15) False test_world))))) =
     [''setup.completed'']"
  by (simp add: eval_defs instance_defs)

lemma ready_result_status: "status ready_result = ''ready''"
  by (simp add: ready_result_def result_def)

section \<open>The claims\<close>

subsection \<open>C2: revocation never finds the session\<close>



subsection \<open>C1: a name collision or an unknown role at the orchestrator\<close>

text \<open>
  Claim C1. For every \<^verbatim>\<open>create_session\<close> job on which the provider raises a known semantic
  conflict (\<^verbatim>\<open>USER_EXISTS\<close> or \<^verbatim>\<open>ROLE_NOT_FOUND\<close>), the orchestrator's job result is a
  failure whose error is non-retryable and whose code is never \<^verbatim>\<open>INTERNAL_ERROR\<close>.

  The code does otherwise. In \<open>collision_world\<close> the role \<^verbatim>\<open>gk_697a8b9cadbe\<close> exists and is
  the name the job generates. The provider raises \<^verbatim>\<open>USER_EXISTS\<close> with \<^verbatim>\<open>retryable = false\<close>;
  the \<^verbatim>\<open>catch\<close> of \<^verbatim>\<open>createSession\<close> replaces it by a retryable \<^verbatim>\<open>DatabaseError\<close>, and the
  \<^verbatim>\<open>catch\<close> of \<^verbatim>\<open>processJob\<close> reports \<^verbatim>\<open>INTERNAL_ERROR\<close> with \<^verbatim>\<open>retryable: true\<close>.
\<close>

theorem C1_user_exists_reported_as_internal_error:
  "role_exists (db collision_world) (req_username (snd (fst collision_credentials))) \<and>
   fst (p_createEphemeralUser PostgresProvider (snd (fst collision_credentials))
          (emit (Call (CreateEphemeralUserCall (snd (fst collision_credentials))))
             (snd collision_credentials))) =
     Inl (DatabaseProviderError ''User gk_697a8b9cadbe already exists'' ''USER_EXISTS'' False) \<and>
   fst (processJob test_platform test_config PostgresProvider (create_json 15) False
          collision_world) =
     Inr ((result ''failed'')\<lparr>error := Some \<lparr>code = ''INTERNAL_ERROR'',
                                               message = ''Internal server error'',
                                               retryable = True\<rparr>\<rparr>)"
  by (simp add: eval_defs instance_defs collision_credentials_def)

subsection \<open>C7: the TTL bounds\<close>

text \<open>
  Claim C7. For every \<^verbatim>\<open>create_session\<close> job whose \<^verbatim>\<open>ttlMinutes\<close> exceeds the configured
  maximum, the result is \<^verbatim>\<open>{status: failed}\<close> with error code \<^verbatim>\<open>VALIDATION_ERROR\<close> and
  \<^verbatim>\<open>retryable = false\<close>, and the provider is not invoked; \<^verbatim>\<open>ttlMinutes\<close> equal to the
  configured maximum is accepted, and \<^verbatim>\<open>ttlMinutes\<close> of 0 is rejected at decoding with a
  validation error.

  As stated the middle part fails: the job schema has its own upper bound of 1440, so with
  a configured maximum of 2000 a job asking for exactly 2000 minutes is rejected at
  decoding.
\<close>

theorem C7_maximum_above_schema_bound_counterexample:
  "sessionMaxTtlMinutes config_2000 = 2000 \<and>
   map_of (create_fields 2000) ''ttlMinutes'' = Some (JNum (Integer 2000)) \<and>
   fst (processJob test_platform config_2000 PostgresProvider (create_json 2000) False test_world) =
     Inr (validation_failure ''Invalid agent job: TTL cannot exceed 24 hours (1440 minutes)'')"
  by (simp add: eval_defs instance_defs)

text \<open>
  Claim C7, amended. Once \<^verbatim>\<open>processJob\<close> is past its initialisation step, for every job
  object of type \<^verbatim>\<open>create_session\<close>: (1) if its \<^verbatim>\<open>ttlMinutes\<close> is an integer above the
  configured maximum, the result is failed with \<^verbatim>\<open>VALIDATION_ERROR\<close>, not retryable, and the
  world is the one initialisation left, so the provider's \<^verbatim>\<open>createEphemeralUser\<close> was not
  called and nothing was written; (2) if the job is valid and the configured maximum lies
  within the schema's bounds 1 to 1440, the same job with \<^verbatim>\<open>ttlMinutes\<close> set to that maximum
  is decoded and handed to the \<^verbatim>\<open>try\<close> block of \<^verbatim>\<open>createSession\<close>, which generates the
  credentials and calls the provider (a property listed first shadows a later one of the
  same key); (3) if its \<^verbatim>\<open>ttlMinutes\<close> is 0, decoding raises a \<^verbatim>\<open>ValidationError\<close>.
\<close>

theorem C7_ttl_bounds:
  assumes "fst (agent_initialize cfg P initialized w) = Inr u"
      and "map_of kvs ''type'' = Some (JStr ''create_session'')"
  shows "(map_of kvs ''ttlMinutes'' = Some (JNum (Integer t)) \<and> sessionMaxTtlMinutes cfg < t \<longrightarrow>
            (\<exists>m. processJob L cfg P (JObj kvs) initialized w =
                   (Inr (validation_failure m), snd (agent_initialize cfg P initialized w)))) \<and>
         (validateAgentJob L (JObj kvs) = Inr (CreateSession job) \<and>
          1 \<le> sessionMaxTtlMinutes cfg \<and> sessionMaxTtlMinutes cfg \<le> 1440 \<longrightarrow>
            validateAgentJob L
                (JObj ((''ttlMinutes'', JNum (Integer (sessionMaxTtlMinutes cfg))) # kvs)) =
              Inr (CreateSession (job\<lparr>ttlMinutes := sessionMaxTtlMinutes cfg\<rparr>)) \<and>
            route L cfg P
                (JObj ((''ttlMinutes'', JNum (Integer (sessionMaxTtlMinutes cfg))) # kvs)) w' =
              createSession_try L P (job\<lparr>ttlMinutes := sessionMaxTtlMinutes cfg\<rparr>) w') \<and>
         (map_of kvs ''ttlMinutes'' = Some (JNum (Integer 0)) \<longrightarrow>
            (\<exists>m f. validateAgentJob L (JObj kvs) = Inl (ValidationError m f)))"
proof (intro conjI impI)
  assume a: "map_of kvs ''ttlMinutes'' = Some (JNum (Integer t)) \<and> sessionMaxTtlMinutes cfg < t"
  obtain m f where "route L cfg P (JObj kvs) (after_initialize cfg P initialized w) =
      (Inl (ValidationError m f), after_initialize cfg P initialized w)"
    using route_over_max [OF assms(2)] a by blast
  then have "processJob L cfg P (JObj kvs) initialized w =
      (Inr (validation_failure m), snd (agent_initialize cfg P initialized w))"
    by (simp add: processJob_routed [OF assms(1)] failed_result_validation after_initialize_def)
  then show "\<exists>m. processJob L cfg P (JObj kvs) initialized w =
      (Inr (validation_failure m), snd (agent_initialize cfg P initialized w))" ..
next
  assume b: "validateAgentJob L (JObj kvs) = Inr (CreateSession job) \<and>
             1 \<le> sessionMaxTtlMinutes cfg \<and> sessionMaxTtlMinutes cfg \<le> 1440"
  let ?kvs = "(''ttlMinutes'', JNum (Integer (sessionMaxTtlMinutes cfg))) # kvs"
  have s: "CreateSessionJobSchema L kvs = Inr job"
    using b validateAgentJob_create [OF assms(2)] by auto
  have t: "map_of ?kvs ''type'' = Some (JStr ''create_session'')"
    using assms(2) by simp
  show v: "validateAgentJob L (JObj ?kvs) =
             Inr (CreateSession (job\<lparr>ttlMinutes := sessionMaxTtlMinutes cfg\<rparr>))"
    using CreateSessionJobSchema_set_ttl [OF s, of "sessionMaxTtlMinutes cfg"] b
    by (simp add: validateAgentJob_create [OF t])
  show "route L cfg P (JObj ?kvs) w' =
          createSession_try L P (job\<lparr>ttlMinutes := sessionMaxTtlMinutes cfg\<rparr>) w'"
    by (simp add: route_def v createSession_def)
next
  assume c: "map_of kvs ''ttlMinutes'' = Some (JNum (Integer 0))"
  show "\<exists>m f. validateAgentJob L (JObj kvs) = Inl (ValidationError m f)"
  proof (cases "validateAgentJob L (JObj kvs)")
    case (Inl e)
    then show ?thesis using validateAgentJob_error [OF Inl] by auto
  next
    case (Inr j)
    then obtain job' where "CreateSessionJobSchema L kvs = Inr job'"
      using validateAgentJob_create [OF assms(2)] by blast
    from CreateSessionJobSchema_ttl [OF this] c show ?thesis by auto
  qed
qed

theorem C7_ttl_bounds_witness:
  "fst (agent_initialize test_config PostgresProvider False test_world) = Inr () \<and>
   map_of (create_fields 9999) ''type'' = Some (JStr ''create_session'') \<and>
   map_of (create_fields 9999) ''ttlMinutes'' = Some (JNum (Integer 9999)) \<and>
   sessionMaxTtlMinutes test_config < 9999 \<and>
   (\<exists>m. processJob test_platform test_config PostgresProvider (create_json 9999) False test_world =
          (Inr (validation_failure m),
           snd (agent_initialize test_config PostgresProvider False test_world))) \<and>
   validateAgentJob test_platform (create_json 15) = Inr (CreateSession (create_job 15)) \<and>
   1 \<le> sessionMaxTtlMinutes test_config \<and> sessionMaxTtlMinutes test_config \<le> 1440 \<and>
   validateAgentJob test_platform
       (JObj ((''ttlMinutes'', JNum (Integer 1440)) # create_fields 15)) =
     Inr (CreateSession (create_job 1440)) \<and>
   map_of (create_fields 0) ''ttlMinutes'' = Some (JNum (Integer 0)) \<and>
   (\<exists>m f. validateAgentJob test_platform (create_json 0) = Inl (ValidationError m f))"
proof -
  have v15: "validateAgentJob test_platform (JObj (create_fields 15)) =
               Inr (CreateSession (create_job 15))"
    using create_json_valid [of 15] by (simp add: create_json_def)
  have m: "sessionMaxTtlMinutes test_config = 1440"
    by (simp add: test_config_def)
  have j: "(create_job 15)\<lparr>ttlMinutes := 1440\<rparr> = create_job 1440"
    by (simp add: create_job_def)
  show ?thesis
    using C7_ttl_bounds [OF test_world_initializes create_fields_type, of 9999 9999 test_platform]
          C7_ttl_bounds [OF test_world_initializes create_fields_type, of 15 0 test_platform
                           "create_job 15"]
          C7_ttl_bounds [OF test_world_initializes create_fields_type, of 0 0 test_platform]
          test_world_initializes create_fields_type create_fields_ttl v15 m j
    by (simp add: create_json_def)
qed

subsection \<open>C9: the cleanup result\<close>



subsection \<open>C10: the admin connection is released exactly once\<close>

text \<open>
  Claim C10. For every provider operation that acquires a connection from the admin pool
  (\<^verbatim>\<open>createEphemeralUser\<close>, \<^verbatim>\<open>dropUser\<close>, \<^verbatim>\<open>listEphemeralUsers\<close>, \<^verbatim>\<open>cleanupExpiredUsers\<close>,
  \<^verbatim>\<open>healthCheck\<close>), the acquired connection is released exactly once on every execution
  path, including every error path.

  The hypotheses say that the provider is initialised and that \<^verbatim>\<open>pool.connect()\<close> hands out
  a client. The rest of the fault script is arbitrary, so every statement may fail; in each
  case the events the operation adds to the trace begin with the acquisition, end with
  the release, and contain exactly one of each.
\<close>

theorem C10_connection_released_exactly_once:
  assumes "pg_pool w = Some p" and "pg_config w = Some config" and "fst (pool_connect w) = Inr u"
  shows "released_once w (snd (createEphemeralUser request w)) \<and>
         released_once w (snd (dropUser name w)) \<and>
         released_once w (snd (listEphemeralUsers w)) \<and>
         released_once w (snd (cleanupExpiredUsers older w)) \<and>
         released_once w (snd (healthCheck w))"
  using createEphemeralUser_released [OF assms] dropUser_released [OF assms(1,3)]
        listEphemeralUsers_released [OF assms(1,3)] cleanupExpiredUsers_released [OF assms(1,3)]
        healthCheck_released [OF assms(1,3)]
  by simp

theorem C10_connection_released_exactly_once_witness:
  "pg_pool ready_world = Some \<lparr>totalCount = 1, idleCount = 1\<rparr> \<and>
   pg_config ready_world = Some test_connection \<and>
   fst (pool_connect ready_world) = Inr () \<and>
   released_once ready_world (snd (createEphemeralUser test_request ready_world)) \<and>
   released_once ready_world (snd (dropUser ''bob'' ready_world)) \<and>
   released_once ready_world (snd (listEphemeralUsers ready_world)) \<and>
   released_once ready_world (snd (cleanupExpiredUsers None ready_world)) \<and>
   released_once ready_world (snd (healthCheck ready_world))"
  using C10_connection_released_exactly_once
          [OF ready_world_pool ready_world_config ready_world_connects,
           of test_request "''bob''" None]
        ready_world_pool ready_world_config ready_world_connects
  by simp

subsection \<open>C5: how a failed creation is reported\<close>





subsection \<open>C8: dropping a principal\<close>






subsection \<open>C4: the rows of a cleanup\<close>





subsection \<open>C3: the audit entry of a creation\<close>

text \<open>
  Claim C3. For every successfully completed \<^verbatim>\<open>create_session\<close> job, a
  \<^verbatim>\<open>session.created\<close> audit event is appended to the audit log after the privileged-helper
  invocation commits, with \<^verbatim>\<open>event_hash\<close> equal to a content hash over
  \<^verbatim>\<open>{event_type, event_data}\<close> and \<^verbatim>\<open>prev_hash\<close> chaining to the previous event's hash.

  \<^verbatim>\<open>auditEvent\<close> computes the hash and hands the entry to the logger; it writes nothing to the
  table \<^verbatim>\<open>gatekeeper_audit\<close> and computes no \<^verbatim>\<open>prev_hash\<close>. Scenario 1 completes with
  \<^verbatim>\<open>status: ready\<close> and the table still holds the installer's \<^verbatim>\<open>setup.completed\<close> row only.
\<close>

theorem C3_audit_log_unchanged_counterexample:
  "validateAgentJob test_platform (create_json 15) = Inr (CreateSession (create_job 15)) \<and>
   fst (processJob test_platform test_config PostgresProvider (create_json 15) False test_world) =
     Inr ready_result \<and>
   status ready_result = ''ready'' \<and>
   map event_type (gatekeeper_audit (db test_world)) = [''setup.completed''] \<and>
   map event_type (gatekeeper_audit (db (snd (snd
      (processJob test_platform test_config PostgresProvider (create_json 15) False test_world))))) =
     [''setup.completed'']"
  using create_json_valid [of 15] create_15_ready ready_result_status create_15_audit
  by (simp add: test_world_def bootstrap_db_def)

text \<open>
  Claim C3, amended. For every successfully completed \<^verbatim>\<open>create_session\<close> job (PostgreSQL
  provider), exactly one \<^verbatim>\<open>session.created\<close> audit entry is handed to the logger, after the
  \<^verbatim>\<open>COMMIT\<close> of the privileged-helper transaction and after the release of the connection; it
  carries the session id and the username of the result, the correlation id of the job, and the
  SHA-256 of \<^verbatim>\<open>JSON.stringify({type, data})\<close>. The entry has no \<^verbatim>\<open>prev_hash\<close>, and the table
  \<^verbatim>\<open>gatekeeper_audit\<close> is left as it was.
\<close>

theorem C3_audit_entry_logged_after_commit:
  assumes "validateAgentJob L jobData = Inr (CreateSession job)"
      and "fst (processJob L cfg PostgresProvider jobData initialized w) = Inr r"
      and "status r = ''ready''"
  shows "\<exists>request e.
           trace (snd (snd (processJob L cfg PostgresProvider jobData initialized w))) =
             trace (after_initialize cfg PostgresProvider initialized w) @
               [Call (CreateEphemeralUserCall request), Acquire, Sql Begin,
                Sql (create_statement request (after_initialize cfg PostgresProvider initialized w)),
                Sql Commit, Sql Select_version, Release, Audit e] \<and>
           eventType e = ''session.created'' \<and>
           audit_sessionId e = sessionId r \<and>
           audit_user e = username r \<and>
           audit_correlationId e = Some (correlationId job) \<and>
           eventHash e =
             sha256_hex L (JSON_stringify L
               (JObj [(''type'', JStr ''session.created''),
                      (''data'', created_event_data PostgresProvider job)])) \<and>
           gatekeeper_audit (db (snd (snd (processJob L cfg PostgresProvider jobData initialized w)))) =
             gatekeeper_audit (db w)"
proof -
  let ?w0 = "after_initialize cfg PostgresProvider initialized w"
  from createSession_ready [OF assms] obtain sid request w3 created w4 where
    g: "generate_credentials job ?w0 = ((sid, request), w3)" and
    p: "createEphemeralUser request (emit (Call (CreateEphemeralUserCall request)) w3) =
          (Inr created, w4)" and
    r: "r = (result ''ready'')\<lparr>sessionId := Some sid, dsn := Some (cr_dsn created),
                                  expiresAt := Some (cr_expiresAt created),
                                  username := Some (req_username request)\<rparr>" and
    w': "snd (snd (processJob L cfg PostgresProvider jobData initialized w)) =
           auditEvent L ''session.created'' (Some sid) (Some (req_username request))
             (Some (correlationId job)) (created_event_data PostgresProvider job) w4"
    by (auto simp: PostgresProvider_def)
  have w3: "w3 = ?w0\<lparr>consumed := consumed ?w0 + 32\<rparr>"
    using g by (simp add: generate_credentials_eq)
  note s = createEphemeralUser_success [OF p]
  have cs: "create_statement request (emit (Call (CreateEphemeralUserCall request)) w3) =
            create_statement request ?w0"
    by (simp add: create_statement_def emit_def w3)
  show ?thesis
    apply (rule exI [of _ request])
    apply (rule exI [of _ "\<lparr>eventType = ''session.created'', audit_sessionId = Some sid,
                            audit_user = Some (req_username request),
                            audit_correlationId = Some (correlationId job),
                            eventHash = sha256_hex L (JSON_stringify L
                               (JObj [(''type'', JStr ''session.created''),
                                      (''data'', created_event_data PostgresProvider job)]))\<rparr>"])
    using s cs after_initialize_frame [of cfg initialized w]
    by (simp add: w' r auditEvent_def emit_def w3 result_def)
qed

theorem C3_audit_entry_logged_after_commit_witness:
  "validateAgentJob test_platform (create_json 15) = Inr (CreateSession (create_job 15)) \<and>
   fst (processJob test_platform test_config PostgresProvider (create_json 15) False test_world) =
     Inr ready_result \<and>
   status ready_result = ''ready'' \<and>
   (\<exists>request e.
      trace (snd (snd (processJob test_platform test_config PostgresProvider (create_json 15)
                         False test_world))) =
        trace (after_initialize test_config PostgresProvider False test_world) @
          [Call (CreateEphemeralUserCall request), Acquire, Sql Begin,
           Sql (create_statement request
                  (after_initialize test_config PostgresProvider False test_world)),
           Sql Commit, Sql Select_version, Release, Audit e] \<and>
      eventType e = ''session.created'' \<and>
      audit_sessionId e = Some ''ses_031425364758'' \<and>
      audit_user e = Some ''gk_697a8b9cadbe'' \<and>
      audit_correlationId e = Some ''c07a0c9b-7f6d-4b8f-8b0c-1d8b9eb9f4f8'')"
  using C3_audit_entry_logged_after_commit [OF create_json_valid create_15_ready ready_result_status]
        create_json_valid [of 15] create_15_ready ready_result_status
  by (simp add: ready_result_def result_def create_job_def) blast

subsection \<open>C6: identifiers, password and expiry of a created session\<close>

text \<open>
  Claim C6. For every valid \<^verbatim>\<open>create_session\<close> job that succeeds, the result's username is
  \<^verbatim>\<open>gk_\<close> followed by 12 random hex characters (so it matches \<^verbatim>\<open>^gk_[A-Za-z0-9]+$\<close> with
  length in 4..63), the session id is \<^verbatim>\<open>ses_\<close> followed by 12 random hex characters, the
  generated password encodes at least 16 bytes of entropy into a string of at least 24
  characters, and \<^verbatim>\<open>expiresAt\<close> equals the time of processing plus \<^verbatim>\<open>ttlMinutes\<close> * 60 seconds
  and is strictly greater than now.

  The job draws 32 bytes from the random source: 6 for the session id, 6 for the username, 16
  for the base64 part of the password and 4 for its hex tail. The password is the one passed to
  \<^verbatim>\<open>createEphemeralUser\<close>; it has 32 characters and determines its 20 bytes. Times are in
  milliseconds, and the clock does not move during the job.
\<close>

theorem C6_generated_credentials:
  assumes "validateAgentJob L jobData = Inr (CreateSession job)"
      and "fst (processJob L cfg PostgresProvider jobData initialized w) = Inr r"
      and "status r = ''ready''"
  shows "sessionId r = Some (''ses_'' @ to_hex (map (entropy w) [consumed w ..< consumed w + 6])) \<and>
         username r =
           Some (''gk_'' @ to_hex (map (entropy w) [consumed w + 6 ..< consumed w + 12])) \<and>
         (\<exists>sid name password.
            sessionId r = Some (''ses_'' @ sid) \<and> length sid = 12 \<and> list_all is_hex sid \<and>
            username r = Some (''gk_'' @ name) \<and> length name = 12 \<and> list_all is_hex name \<and>
            gk_pattern (''gk_'' @ name) \<and>
            4 \<le> length (''gk_'' @ name) \<and> length (''gk_'' @ name) \<le> 63 \<and>
            Call (CreateEphemeralUserCall
                    \<lparr>req_username = ''gk_'' @ name, req_password = password,
                     req_role = role job, req_ttlMinutes = ttlMinutes job,
                     req_connectionLimit = 2\<rparr>)
              \<in> set (trace (snd (snd (processJob L cfg PostgresProvider jobData initialized w)))) \<and>
            password = to_base64 (map (entropy w) [consumed w + 12 ..< consumed w + 28])
                       @ to_hex (map (entropy w) [consumed w + 28 ..< consumed w + 32]) \<and>
            length password = 32 \<and> 24 \<le> length password \<and>
            (\<forall>a b. length a = 16 \<and> length b = 4 \<and> to_base64 a @ to_hex b = password \<longrightarrow>
                   a = map (entropy w) [consumed w + 12 ..< consumed w + 28] \<and>
                   b = map (entropy w) [consumed w + 28 ..< consumed w + 32])) \<and>
         expiresAt r = Some (clock w + ttlMinutes job * 60 * 1000) \<and>
         clock (snd (snd (processJob L cfg PostgresProvider jobData initialized w))) = clock w \<and>
         clock w < clock w + ttlMinutes job * 60 * 1000"
proof -
  let ?w0 = "after_initialize cfg PostgresProvider initialized w"
  let ?w' = "snd (snd (processJob L cfg PostgresProvider jobData initialized w))"
  let ?s = "map (entropy w) [consumed w ..< consumed w + 6]"
  let ?u = "map (entropy w) [consumed w + 6 ..< consumed w + 12]"
  let ?a = "map (entropy w) [consumed w + 12 ..< consumed w + 28]"
  let ?b = "map (entropy w) [consumed w + 28 ..< consumed w + 32]"
  let ?request = "\<lparr>req_username = ''gk_'' @ to_hex ?u, req_password = to_base64 ?a @ to_hex ?b,
                   req_role = role job, req_ttlMinutes = ttlMinutes job,
                   req_connectionLimit = 2\<rparr>"
  note fr = after_initialize_frame [of cfg initialized w]
  from createSession_ready [OF assms] obtain sid request w3 created w4 where
    g: "generate_credentials job ?w0 = ((sid, request), w3)" and
    p: "createEphemeralUser request (emit (Call (CreateEphemeralUserCall request)) w3) =
          (Inr created, w4)" and
    r: "r = (result ''ready'')\<lparr>sessionId := Some sid, dsn := Some (cr_dsn created),
                                  expiresAt := Some (cr_expiresAt created),
                                  username := Some (req_username request)\<rparr>" and
    w': "?w' = auditEvent L ''session.created'' (Some sid) (Some (req_username request))
                 (Some (correlationId job)) (created_event_data PostgresProvider job) w4"
    by (auto simp: PostgresProvider_def)
  have sid: "sid = ''ses_'' @ to_hex ?s" and request: "request = ?request"
    and w3: "w3 = ?w0\<lparr>consumed := consumed ?w0 + 32\<rparr>"
    using g fr by (simp_all add: generate_credentials_eq)
  note s = createEphemeralUser_success [OF p]
  have tr: "Call (CreateEphemeralUserCall ?request) \<in> set (trace ?w')"
    using s by (simp add: w' auditEvent_def emit_def request)
  have ck: "clock ?w' = clock w"
    using s fr by (simp add: w' auditEvent_def emit_def w3)
  have ex: "expiresAt r = Some (clock w + ttlMinutes job * 60 * 1000)"
    using s fr by (simp add: r emit_def w3 request)
  have lt: "clock w < clock w + ttlMinutes job * 60 * 1000"
    using s fr by (simp add: emit_def w3 request)
  have 1: "sessionId r = Some (''ses_'' @ to_hex ?s)" by (simp add: r sid)
  have 2: "username r = Some (''gk_'' @ to_hex ?u)" by (simp add: r request)
  have ls: "length (to_hex ?s) = 12" and lu: "length (to_hex ?u) = 12"
    by (simp_all add: to_hex_length)
  have pat: "gk_pattern (''gk_'' @ to_hex ?u)"
    by (rule gk_pattern_hex) simp
  have lp: "length (to_base64 ?a @ to_hex ?b) = 32"
    by (simp add: to_base64_length to_hex_length)
  have inj: "\<forall>a b. length a = 16 \<and> length b = 4 \<and> to_base64 a @ to_hex b = to_base64 ?a @ to_hex ?b
               \<longrightarrow> a = ?a \<and> b = ?b"
  proof (intro allI impI)
    fix a b
    assume h: "length a = 16 \<and> length b = 4 \<and> to_base64 a @ to_hex b = to_base64 ?a @ to_hex ?b"
    have "length ?a = 16" and "length b = length ?b" using h by simp_all
    then show "a = ?a \<and> b = ?b" using password_inj [of a ?a b ?b] h by blast
  qed
  have 3: "\<exists>sid name password.
            sessionId r = Some (''ses_'' @ sid) \<and> length sid = 12 \<and> list_all is_hex sid \<and>
            username r = Some (''gk_'' @ name) \<and> length name = 12 \<and> list_all is_hex name \<and>
            gk_pattern (''gk_'' @ name) \<and>
            4 \<le> length (''gk_'' @ name) \<and> length (''gk_'' @ name) \<le> 63 \<and>
            Call (CreateEphemeralUserCall
                    \<lparr>req_username = ''gk_'' @ name, req_password = password,
                     req_role = role job, req_ttlMinutes = ttlMinutes job,
                     req_connectionLimit = 2\<rparr>) \<in> set (trace ?w') \<and>
            password = to_base64 ?a @ to_hex ?b \<and>
            length password = 32 \<and> 24 \<le> length password \<and>
            (\<forall>a b. length a = 16 \<and> length b = 4 \<and> to_base64 a @ to_hex b = password \<longrightarrow>
                   a = ?a \<and> b = ?b)"
    apply (rule exI [of _ "to_hex ?s"])
    apply (rule exI [of _ "to_hex ?u"])
    apply (rule exI [of _ "to_base64 ?a @ to_hex ?b"])
    using 1 2 ls lu pat tr lp inj to_hex_chars [of ?s] to_hex_chars [of ?u]
    by simp
  show ?thesis using 1 2 3 ex ck lt by blast
qed

theorem C6_generated_credentials_witness:
  "validateAgentJob test_platform (create_json 15) = Inr (CreateSession (create_job 15)) \<and>
   fst (processJob test_platform test_config PostgresProvider (create_json 15) False test_world) =
     Inr ready_result \<and>
   status ready_result = ''ready'' \<and>
   sessionId ready_result =
     Some (''ses_'' @ to_hex (map (entropy test_world)
                               [consumed test_world ..< consumed test_world + 6])) \<and>
   username ready_result =
     Some (''gk_'' @ to_hex (map (entropy test_world)
                               [consumed test_world + 6 ..< consumed test_world + 12])) \<and>
   expiresAt ready_result = Some (clock test_world + ttlMinutes (create_job 15) * 60 * 1000) \<and>
   expiresAt ready_result = Some 1700000900000 \<and> clock test_world = 1700000000000"
  using C6_generated_credentials [OF create_json_valid create_15_ready ready_result_status]
        create_json_valid [of 15] create_15_ready ready_result_status
  by (simp add: ready_result_def result_def test_world_def)

end
